theory Spec2Isabelle
  imports Complex_Main
begin

section \<open>Python text operations (ASCII)\<close>

text \<open>
  A Python \<open>str\<close> is modelled as a \<^typ>\<open>string\<close>. The character classes below are
  the ASCII ones; on ASCII text a character is one code point, so \<^const>\<open>length\<close> is
  Python's \<open>len\<close>. Python's Unicode-aware behaviour on code points beyond ASCII is
  outside the model, and the theorems about user text assume \<open>ascii_text\<close>.
\<close>

definition ascii_text :: "string \<Rightarrow> bool" where
  "ascii_text s = list_all (\<lambda>c. (of_char c :: nat) < 128) s"

text \<open>\<open>str.isspace\<close> on ASCII: TAB, LF, VT, FF, CR, FS, GS, RS, US and the space.\<close>

definition is_space :: "char \<Rightarrow> bool" where
  "is_space c = (c \<in> set [CHR 0x09, CHR 0x0A, CHR 0x0B, CHR 0x0C, CHR 0x0D,
                            CHR 0x1C, CHR 0x1D, CHR 0x1E, CHR 0x1F, CHR '' ''])"

definition strip :: "string \<Rightarrow> string" where
  "strip s = rev (dropWhile is_space (rev (dropWhile is_space s)))"

definition is_upper :: "char \<Rightarrow> bool" where
  "is_upper c = (c \<in> set ''ABCDEFGHIJKLMNOPQRSTUVWXYZ'')"

definition is_lower :: "char \<Rightarrow> bool" where
  "is_lower c = (c \<in> set ''abcdefghijklmnopqrstuvwxyz'')"

definition is_digit :: "char \<Rightarrow> bool" where
  "is_digit c = (c \<in> set ''0123456789'')"

definition is_alpha :: "char \<Rightarrow> bool" where
  "is_alpha c = (is_upper c \<or> is_lower c)"

text \<open>The class \<open>\w\<close> of Python's \<open>re\<close> on ASCII.\<close>

definition is_word_char :: "char \<Rightarrow> bool" where
  "is_word_char c = (is_alpha c \<or> is_digit c \<or> c = CHR ''_'')"

definition lower_char :: "char \<Rightarrow> char" where
  "lower_char c =
     (case map_of (zip ''ABCDEFGHIJKLMNOPQRSTUVWXYZ'' ''abcdefghijklmnopqrstuvwxyz'') c of
        Some d \<Rightarrow> d | None \<Rightarrow> c)"

definition upper_char :: "char \<Rightarrow> char" where
  "upper_char c =
     (case map_of (zip ''abcdefghijklmnopqrstuvwxyz'' ''ABCDEFGHIJKLMNOPQRSTUVWXYZ'') c of
        Some d \<Rightarrow> d | None \<Rightarrow> c)"

definition lower :: "string \<Rightarrow> string" where
  "lower s = map lower_char s"

definition upper :: "string \<Rightarrow> string" where
  "upper s = map upper_char s"

text \<open>\<open>s.replace(c, d)\<close> for a one-character \<open>c\<close>.\<close>

definition replace_char :: "char \<Rightarrow> string \<Rightarrow> string \<Rightarrow> string" where
  "replace_char c d s = concat (map (\<lambda>x. if x = c then d else [x]) s)"

text \<open>\<open>str.isdigit\<close>: non-empty and digits only.\<close>

definition isdigit :: "string \<Rightarrow> bool" where
  "isdigit s = (s \<noteq> [] \<and> list_all is_digit s)"

definition digit_val :: "char \<Rightarrow> int" where
  "digit_val c = int (of_char c) - 48"

text \<open>The number a string of digits denotes, as an unbounded integer.\<close>

definition digits_value :: "string \<Rightarrow> int" where
  "digits_value s = foldl (\<lambda>n c. 10 * n + digit_val c) 0 s"

text \<open>Exceptions, with \<open>str(e)\<close>.\<close>

datatype exn = ValueError string

fun str_exn :: "exn \<Rightarrow> string" where
  "str_exn (ValueError m) = m"

text \<open>\<open>str(n)\<close> for a length.\<close>

function str_nat :: "nat \<Rightarrow> string" where
  "str_nat n =
     (if n < 10 then [''0123456789'' ! n]
      else str_nat (n div 10) @ [''0123456789'' ! (n mod 10)])"
  by pat_completeness auto
termination
  by (relation "measure id") auto

declare str_nat.simps [simp del]

text \<open>
  \<open>int(s)\<close> on a string of digits. The interpreter converts at most 4300 digits (its
  default limit) and raises \<open>ValueError\<close> on a longer string, leading zeros counted.
\<close>

definition int_max_str_digits :: nat where
  "int_max_str_digits = 4300"

definition conversion_limit_error :: "nat \<Rightarrow> exn" where
  "conversion_limit_error n =
     ValueError
       (''Exceeds the limit (4300 digits) for integer string conversion: value has ''
        @ str_nat n @ '' digits; use sys.set_int_max_str_digits() to increase the limit'')"

definition py_int :: "string \<Rightarrow> exn + int" where
  "py_int s =
     (if length s > int_max_str_digits then Inl (conversion_limit_error (length s))
      else Inr (digits_value s))"

text \<open>\<open>kw in s\<close>: \<open>kw\<close> occurs in \<open>s\<close> as a contiguous substring.\<close>

fun starts_with :: "string \<Rightarrow> string \<Rightarrow> bool" where
  "starts_with s [] = True"
| "starts_with [] (k # ks) = False"
| "starts_with (c # cs) (k # ks) = (c = k \<and> starts_with cs ks)"

fun contains :: "string \<Rightarrow> string \<Rightarrow> bool" where
  "contains [] kw = (kw = [])"
| "contains (c # cs) kw = (starts_with (c # cs) kw \<or> contains cs kw)"

text \<open>\<open>s.split(",")\<close>: the pieces between the commas; always at least one piece.\<close>

fun split_on :: "char \<Rightarrow> string \<Rightarrow> string list" where
  "split_on sep [] = [[]]"
| "split_on sep (c # cs) =
     (if c = sep then [] # split_on sep cs
      else (case split_on sep cs of p # ps \<Rightarrow> (c # p) # ps | [] \<Rightarrow> [[c]]))"

text \<open>
  \<open>re.findall(r'\b\w+\b', s)\<close>: the maximal runs of word characters, left to right.
  \<open>run\<close> is the run being read.
\<close>

fun word_runs :: "string \<Rightarrow> string \<Rightarrow> string list" where
  "word_runs run [] = (if run = [] then [] else [run])"
| "word_runs run (c # cs) =
     (if is_word_char c then word_runs (run @ [c]) cs
      else (if run = [] then [] else [run]) @ word_runs [] cs)"

definition findall_words :: "string \<Rightarrow> string list" where
  "findall_words s = word_runs [] s"

text \<open>\<open>sep.join(xs)\<close>.\<close>

fun join :: "string \<Rightarrow> string list \<Rightarrow> string" where
  "join sep [] = []"
| "join sep [x] = x"
| "join sep (x # y # ys) = x @ sep @ join sep (y # ys)"

text \<open>Truthiness of an \<open>Optional[str]\<close>: present and not empty.\<close>

definition truthy :: "string option \<Rightarrow> bool" where
  "truthy v = (case v of None \<Rightarrow> False | Some s \<Rightarrow> s \<noteq> [])"

section \<open>Field registry\<close>

text \<open>\<open>CHOICE_MAPS\<close>: the menu fields and their choices, in display order.\<close>

definition CHOICE_MAPS :: "(string \<times> string list) list" where
  "CHOICE_MAPS =
     [(''issue_type'', [''Task'', ''Story'', ''Epic'']),
      (''priority'', [''Highest'', ''High'', ''Medium'', ''Low'', ''Lowest'']),
      (''status'', [''To Do'', ''In Progress'', ''In Review''])]"

text \<open>\<open>CHOICE_MAPS.get(field, [])\<close>.\<close>

definition choices :: "string \<Rightarrow> string list" where
  "choices field = (case map_of CHOICE_MAPS field of Some opts \<Rightarrow> opts | None \<Rightarrow> [])"

definition FIELD_ORDER :: "string list" where
  "FIELD_ORDER =
     [''issue_type'', ''priority'', ''status'', ''summary'', ''description'',
      ''assignee'', ''start_date'', ''due_date'', ''parent_key'', ''labels'']"

section \<open>Menu interpretation\<close>

text \<open>
  \<open>interpret_choice\<close>: a reply of digits is converted first, which raises when the
  digits are too many; a number out of range falls through to the textual comparison;
  the textual loop returns the first option whose lowercased name, or lowercased name
  without spaces and hyphens, equals the reply. \<open>Inl\<close> is the exception raised.
\<close>

definition normalized :: "string \<Rightarrow> string" where
  "normalized opt = replace_char CHR ''-'' [] (replace_char CHR '' '' [] (lower opt))"

definition text_choice :: "string list \<Rightarrow> string \<Rightarrow> string option" where
  "text_choice opts t = find (\<lambda>opt. t = lower opt \<or> t = normalized opt) opts"

definition interpret_choice :: "string \<Rightarrow> string \<Rightarrow> exn + string option" where
  "interpret_choice field txt =
     (let t = lower (strip txt);
          opts = choices field
      in if isdigit t then
           (case py_int t of
              Inl e \<Rightarrow> Inl e
            | Inr n \<Rightarrow>
                if 0 \<le> n - 1 \<and> n - 1 < int (length opts) then Inr (Some (opts ! nat (n - 1)))
                else Inr (text_choice opts t))
         else Inr (text_choice opts t))"

section \<open>Validators\<close>

subsection \<open>Dates\<close>

text \<open>
  \<open>datetime.strptime(s, "%Y-%m-%d")\<close>. The library compiles the format to the regular
  expression
  \<^verbatim>\<open>(?P<Y>\d\d\d\d)-(?P<m>1[0-2]|0[1-9]|[1-9])-(?P<d>3[0-1]|[1-2]\d|0[1-9]|[1-9]| [1-9])\<close>,
  requires the match to consume the whole string, and then builds the date, which
  raises \<open>ValueError\<close> for year 0 and for a day beyond the month's length.
  \<open>None\<close> stands for the \<open>ValueError\<close>. The year it converts has four digits.
\<close>

definition is_digit19 :: "char \<Rightarrow> bool" where
  "is_digit19 c = (c \<in> set ''123456789'')"

fun month_directive :: "string \<Rightarrow> int option" where
  "month_directive [a] = (if is_digit19 a then Some (digit_val a) else None)"
| "month_directive [a, b] =
     (if a = CHR ''1'' \<and> b \<in> set ''012'' then Some (10 + digit_val b)
      else if a = CHR ''0'' \<and> is_digit19 b then Some (digit_val b)
      else None)"
| "month_directive s = None"

fun day_directive :: "string \<Rightarrow> int option" where
  "day_directive [a] = (if is_digit19 a then Some (digit_val a) else None)"
| "day_directive [a, b] =
     (if a = CHR ''3'' \<and> b \<in> set ''01'' then Some (30 + digit_val b)
      else if a \<in> set ''12'' \<and> is_digit b then Some (10 * digit_val a + digit_val b)
      else if a = CHR ''0'' \<and> is_digit19 b then Some (digit_val b)
      else if a = CHR '' '' \<and> is_digit19 b then Some (digit_val b)
      else None)"
| "day_directive s = None"

definition is_leap :: "int \<Rightarrow> bool" where
  "is_leap y = (y mod 4 = 0 \<and> (y mod 400 = 0 \<or> y mod 100 \<noteq> 0))"

definition days_in_month :: "int \<Rightarrow> int \<Rightarrow> int" where
  "days_in_month y m =
     (if m = 2 then (if is_leap y then 29 else 28)
      else if m \<in> set [4, 6, 9, 11] then 30 else 31)"

definition strptime_Ymd :: "string \<Rightarrow> (int \<times> int \<times> int) option" where
  "strptime_Ymd s =
     (let ys = take 4 s; r1 = drop 4 s;
          ms = takeWhile (\<lambda>c. c \<noteq> CHR ''-'') (drop 1 r1);
          r2 = drop (1 + length ms) r1;
          ds = drop 1 r2
      in if length ys = 4 \<and> list_all is_digit ys \<and> take 1 r1 = ''-'' \<and> take 1 r2 = ''-''
         then (case (month_directive ms, day_directive ds) of
                 (Some m, Some d) \<Rightarrow>
                   (if 1 \<le> digits_value ys \<and> d \<le> days_in_month (digits_value ys) m
                    then Some (digits_value ys, m, d) else None)
               | _ \<Rightarrow> None)
         else None)"

definition validate_date :: "string \<Rightarrow> bool" where
  "validate_date date_str =
     (if strip date_str = [] then True
      else (case strptime_Ymd (strip date_str) of Some d \<Rightarrow> True | None \<Rightarrow> False))"

subsection \<open>Email addresses and issue keys\<close>

text \<open>
  \<open>$\<close> in \<open>re.match\<close> (no flags) matches at the end of the string and before a final
  newline.
\<close>

definition to_dollar :: "(string \<Rightarrow> bool) \<Rightarrow> string \<Rightarrow> bool" where
  "to_dollar p s = (p s \<or> (s \<noteq> [] \<and> last s = CHR 0x0A \<and> p (butlast s)))"

definition email_local_char :: "char \<Rightarrow> bool" where
  "email_local_char c = (is_alpha c \<or> is_digit c \<or> c \<in> set ''._%+-'')"

definition email_domain_char :: "char \<Rightarrow> bool" where
  "email_domain_char c = (is_alpha c \<or> is_digit c \<or> c \<in> set ''.-'')"

text \<open>
  \<^verbatim>\<open>[a-zA-Z0-9._%+-]+@[a-zA-Z0-9.-]+\.[a-zA-Z]{2,}\<close> against the whole of \<open>s\<close>: some
  position \<open>i\<close> holds the \<open>@\<close> and some later position \<open>j\<close> the dot before the last part.
\<close>

definition email_shape :: "string \<Rightarrow> bool" where
  "email_shape s =
     list_ex (\<lambda>i. list_ex (\<lambda>j.
         0 < i \<and> i + 1 < j \<and> j + 2 < length s \<and> s ! i = CHR ''@'' \<and> s ! j = CHR ''.''
         \<and> list_all email_local_char (take i s)
         \<and> list_all email_domain_char (take (j - (i + 1)) (drop (i + 1) s))
         \<and> list_all is_alpha (drop (j + 1) s))
       [0..<length s]) [0..<length s]"

definition validate_email :: "string \<Rightarrow> bool" where
  "validate_email email =
     (if strip email = [] then True else to_dollar email_shape (strip email))"

text \<open>\<^verbatim>\<open>[A-Z]+-\d+\<close> against the whole of \<open>s\<close>.\<close>

definition issue_key_shape :: "string \<Rightarrow> bool" where
  "issue_key_shape s =
     (let letters = takeWhile is_upper s; r = drop (length letters) s
      in letters \<noteq> [] \<and> take 1 r = ''-'' \<and> drop 1 r \<noteq> [] \<and> list_all is_digit (drop 1 r))"

definition match_issue_key :: "string \<Rightarrow> bool" where
  "match_issue_key s = to_dollar issue_key_shape s"

section \<open>Label inference\<close>

definition tech_keywords :: "string list" where
  "tech_keywords =
     [''api'', ''database'', ''frontend'', ''backend'', ''mobile'', ''web'', ''server'',
      ''authentication'', ''oauth'', ''login'', ''payment'', ''gateway'', ''security'',
      ''performance'', ''bug'', ''error'', ''timeout'', ''crash'', ''fix'',
      ''critical'', ''urgent'', ''important'', ''high'', ''medium'', ''low'',
      ''ui'', ''ux'', ''design'', ''infrastructure'', ''devops'', ''testing'',
      ''deployment'', ''monitoring'', ''logging'', ''backup'', ''migration'',
      ''user'', ''customer'', ''admin'', ''report'', ''analytics'', ''dashboard'',
      ''checkout'', ''cart'', ''wishlist'', ''profile'', ''settings'', ''notification'']"

text \<open>The dictionary \<open>compound_keywords\<close>, in insertion order (the order it is iterated in).\<close>

definition compound_keywords :: "(string \<times> string list) list" where
  "compound_keywords =
     [(''two-factor'', [''two'', ''factor'', ''authentication'', ''2fa'']),
      (''single-sign-on'', [''single'', ''sign'', ''sso'']),
      (''real-time'', [''real'', ''time'', ''realtime'']),
      (''third-party'', [''third'', ''party'', ''external'']),
      (''end-to-end'', [''end'', ''to'', ''end'', ''e2e''])]"

text \<open>The body of the first loop: append a keyword not yet found.\<close>

definition add_word :: "string \<Rightarrow> string list \<Rightarrow> string list" where
  "add_word w found = (if w \<in> set tech_keywords \<and> w \<notin> set found then found @ [w] else found)"

text \<open>The body of the second loop: append a compound label one of whose keywords occurs.\<close>

definition add_compound :: "string \<Rightarrow> string \<times> string list \<Rightarrow> string list \<Rightarrow> string list" where
  "add_compound desc_lower entry found =
     (if list_ex (contains desc_lower) (snd entry)
      then (if fst entry \<notin> set found then found @ [fst entry] else found)
      else found)"

definition simple_matches :: "string \<Rightarrow> string list" where
  "simple_matches description = fold add_word (findall_words (lower description)) []"

definition generate_labels_from_description :: "string \<Rightarrow> string list" where
  "generate_labels_from_description description =
     (if description = [] then []
      else take 5 (fold (add_compound (lower description)) compound_keywords
                     (simple_matches description)))"

section \<open>Data model\<close>

datatype Intent = CREATE_ISSUE | UPDATE_ISSUE | QUERY_ISSUE | SEARCH_ISSUES | HELP | UNKNOWN

datatype IssueType = TASK | STORY | EPIC

datatype Priority = LOWEST | LOW | MEDIUM | HIGH | HIGHEST

datatype IssueStatus = TO_DO | IN_PROGRESS | IN_REVIEW | DONE

record ExtractedIssueData =
  issue_type :: "IssueType option"
  priority :: "Priority option"
  summary :: "string option"
  description :: "string option"
  assignee :: "string option"
  project_key :: "string option"
  labels :: "string list"
  issue_key :: "string option"
  status :: "IssueStatus option"
  due_date :: "string option"
  start_date :: "string option"
  parent_key :: "string option"

text \<open>\<open>ExtractedIssueData()\<close>: every field at its default.\<close>

definition empty_issue_data :: ExtractedIssueData where
  "empty_issue_data =
     \<lparr>issue_type = None, priority = None, summary = None, description = None,
      assignee = None, project_key = None, labels = [], issue_key = None, status = None,
      due_date = None, start_date = None, parent_key = None\<rparr>"

text \<open>
  The text of a reply. The prompts of the source are templates decorated with pictographs
  and, for the date fields, today's date; a prompt is kept as its template's arguments:
  the field asked for, the error shown above it, and the labels listed in it (the draft's
  labels for the \<open>labels\<close> field). Rendering a template to characters is not modelled.
\<close>

datatype message =
    Text string
  | FieldPrompt string "string option" "string list"
  | ReadyMessage "IssueType option"
  | MissingRequired "string list"

record AgentResponse =
  intent :: Intent
  confidence :: real
  extracted_data :: ExtractedIssueData
  missing_fields :: "string list"
  next_question :: "message option"
  ready_for_jira :: bool
  response_message :: message
  error :: "string option"

datatype history_entry = User string | Agent message

record ConversationState =
  user_phone :: string
  current_intent :: "Intent option"
  partial_issue_data :: ExtractedIssueData
  conversation_history :: "history_entry list"
  awaiting_field :: "string option"
  last_activity :: "string option"

definition new_conversation_state :: "string \<Rightarrow> ConversationState" where
  "new_conversation_state phone =
     \<lparr>user_phone = phone, current_intent = None, partial_issue_data = empty_issue_data,
      conversation_history = [], awaiting_field = None, last_activity = None\<rparr>"

subsection \<open>Enumerations by value\<close>

fun IssueType_of :: "string \<Rightarrow> exn + IssueType" where
  "IssueType_of v =
     (if v = ''Task'' then Inr TASK else if v = ''Story'' then Inr STORY
      else if v = ''Epic'' then Inr EPIC
      else Inl (ValueError (v @ '' is not a valid IssueType'')))"

fun Priority_of :: "string \<Rightarrow> exn + Priority" where
  "Priority_of v =
     (if v = ''Lowest'' then Inr LOWEST else if v = ''Low'' then Inr LOW
      else if v = ''Medium'' then Inr MEDIUM else if v = ''High'' then Inr HIGH
      else if v = ''Highest'' then Inr HIGHEST
      else Inl (ValueError (v @ '' is not a valid Priority'')))"

fun IssueStatus_of :: "string \<Rightarrow> exn + IssueStatus" where
  "IssueStatus_of v =
     (if v = ''To Do'' then Inr TO_DO else if v = ''In Progress'' then Inr IN_PROGRESS
      else if v = ''In Review'' then Inr IN_REVIEW else if v = ''Done'' then Inr DONE
      else Inl (ValueError (v @ '' is not a valid IssueStatus'')))"

text \<open>
  \<open>setattr(partial, field, to_enum(field, choice))\<close> for a menu field: the enumeration
  is looked up by value first, and a value outside it raises before anything is written.
\<close>

definition set_menu_field ::
  "string \<Rightarrow> string \<Rightarrow> ExtractedIssueData \<Rightarrow> exn + ExtractedIssueData" where
  "set_menu_field field choice partial =
     (if field = ''status'' then
        (case IssueStatus_of choice of Inl e \<Rightarrow> Inl e
         | Inr v \<Rightarrow> Inr (partial\<lparr>status := Some v\<rparr>))
      else if field = ''issue_type'' then
        (case IssueType_of choice of Inl e \<Rightarrow> Inl e
         | Inr v \<Rightarrow> Inr (partial\<lparr>issue_type := Some v\<rparr>))
      else if field = ''priority'' then
        (case Priority_of choice of Inl e \<Rightarrow> Inl e
         | Inr v \<Rightarrow> Inr (partial\<lparr>priority := Some v\<rparr>))
      else Inr partial)"

section \<open>Direct validation\<close>

text \<open>
  The class body defines \<open>process_direct_issue_creation\<close> twice, the same but for the
  default project key. The two bodies are told apart by the line of their \<open>def\<close>.
  Nothing in the body raises, so its \<open>except\<close> branch is not reached.
\<close>

definition direct_missing_fields :: "ExtractedIssueData \<Rightarrow> string list" where
  "direct_missing_fields issue_data =
     (if issue_type issue_data = None then [''issue_type''] else [])
     @ (if priority issue_data = None then [''priority''] else [])
     @ (if truthy (summary issue_data) then [] else [''summary''])
     @ (if truthy (description issue_data) then [] else [''description''])"

definition direct_issue_creation :: "string \<Rightarrow> ExtractedIssueData \<Rightarrow> AgentResponse" where
  "direct_issue_creation default_key issue_data =
     (let missing = direct_missing_fields issue_data in
      if missing \<noteq> [] then
        \<lparr>intent = CREATE_ISSUE, confidence = 1, extracted_data = issue_data,
         missing_fields = missing, next_question = None, ready_for_jira = False,
         response_message = MissingRequired missing,
         error = Some (''Required fields missing: '' @ join '', '' missing)\<rparr>
      else
        (let d1 = (if labels issue_data = [] \<and> truthy (description issue_data)
                   then issue_data\<lparr>labels :=
                          generate_labels_from_description (the (description issue_data))\<rparr>
                   else issue_data);
             d2 = (if truthy (project_key d1) then d1
                   else d1\<lparr>project_key := Some default_key\<rparr>)
         in \<lparr>intent = CREATE_ISSUE, confidence = 1, extracted_data = d2,
             missing_fields = [], next_question = None, ready_for_jira = True,
             response_message = Text ''Issue data validated and ready for creation'',
             error = None\<rparr>))"

definition process_direct_issue_creation_145 :: "ExtractedIssueData \<Rightarrow> AgentResponse" where
  "process_direct_issue_creation_145 = direct_issue_creation ''TJ''"

definition process_direct_issue_creation_240 :: "ExtractedIssueData \<Rightarrow> AgentResponse" where
  "process_direct_issue_creation_240 = direct_issue_creation ''MFLP''"

text \<open>
  The class body binds names in order, and a later \<open>def\<close> rebinds the name of an earlier
  one: the method of the class is the last definition of its name.
\<close>

definition JiraAgent_body :: "(string \<times> (ExtractedIssueData \<Rightarrow> AgentResponse)) list" where
  "JiraAgent_body =
     [(''process_direct_issue_creation'', process_direct_issue_creation_145),
      (''process_direct_issue_creation'', process_direct_issue_creation_240)]"

definition process_direct_issue_creation :: "ExtractedIssueData \<Rightarrow> AgentResponse" where
  "process_direct_issue_creation =
     the (map_of (rev JiraAgent_body) ''process_direct_issue_creation'')"

section \<open>Guided collection\<close>

definition get_field_prompt ::
  "ConversationState \<Rightarrow> string \<Rightarrow> string option \<Rightarrow> AgentResponse" where
  "get_field_prompt state field err =
     (let partial = partial_issue_data state;
          msg = FieldPrompt field (if truthy err then err else None)
                  (if field = ''labels'' then labels partial else [])
      in \<lparr>intent = CREATE_ISSUE, confidence = 1, extracted_data = partial,
          missing_fields = [field], next_question = Some msg, ready_for_jira = False,
          response_message = msg, error = None\<rparr>)"

text \<open>\<open>FIELD_ORDER.index(x)\<close>, called for a member only.\<close>

primrec index_of :: "string list \<Rightarrow> string \<Rightarrow> nat" where
  "index_of [] x = 0"
| "index_of (y # ys) x = (if y = x then 0 else Suc (index_of ys x))"

definition get_next_field_prompt :: "ConversationState \<Rightarrow> ConversationState \<times> AgentResponse" where
  "get_next_field_prompt state =
     (let ready =
            (state\<lparr>awaiting_field := None\<rparr>,
             \<lparr>intent = CREATE_ISSUE, confidence = 1,
              extracted_data = partial_issue_data state, missing_fields = [],
              next_question = None, ready_for_jira = True,
              response_message = ReadyMessage (issue_type (partial_issue_data state)),
              error = None\<rparr>)
      in case awaiting_field state of
           None \<Rightarrow> ready
         | Some current_field \<Rightarrow>
             if current_field \<in> set FIELD_ORDER
                \<and> index_of FIELD_ORDER current_field + 1 < length FIELD_ORDER
             then (let next_field = FIELD_ORDER ! (index_of FIELD_ORDER current_field + 1);
                       state' = state\<lparr>awaiting_field := Some next_field\<rparr>
                   in (state', get_field_prompt state' next_field None))
             else ready)"

definition start_interactive_collection :: "ConversationState \<Rightarrow> ConversationState \<times> AgentResponse" where
  "start_interactive_collection state =
     (let state' = state\<lparr>awaiting_field := Some (FIELD_ORDER ! 0)\<rparr>
      in (state', get_field_prompt state' (FIELD_ORDER ! 0) None))"

text \<open>\<open>user_input.lower() in ["skip", "none", ""]\<close>.\<close>

definition is_skip :: "string \<Rightarrow> bool" where
  "is_skip user_input = (lower user_input \<in> set [''skip'', ''none'', []])"

text \<open>
  The comprehension of the \<open>labels\<close> branch: the pieces between commas that are not
  blank, each trimmed, lowercased and with its spaces replaced by hyphens.
\<close>

definition manual_labels :: "string \<Rightarrow> string list" where
  "manual_labels user_input =
     map (\<lambda>l. replace_char CHR '' '' ''-'' (lower (strip l)))
       (filter (\<lambda>l. strip l \<noteq> []) (split_on CHR '','' user_input))"

text \<open>
  \<open>list(set(xs))\<close> lists the distinct elements of \<open>xs\<close> in the iteration order of a hash
  set, which the language leaves open. The order is a parameter \<open>list_set\<close> of the engine,
  and \<open>set_listing\<close> says what every such order satisfies.
\<close>

definition set_listing :: "(string list \<Rightarrow> string list) \<Rightarrow> bool" where
  "set_listing list_set = (\<forall>xs. distinct (list_set xs) \<and> set (list_set xs) = set xs)"

text \<open>
  \<open>_handle_field_input\<close>. The draft is mutated in place in the source; here the state
  with the new draft is passed on (\<open>store\<close>, followed by the prompt for the next field).
  \<open>reject\<close> is the re-prompt of a failed check, and \<open>Inr (state, None)\<close> the
  \<open>return None\<close> of a field the method does not know.
\<close>

definition handle_field_input ::
  "(string list \<Rightarrow> string list) \<Rightarrow> ConversationState \<Rightarrow> string \<Rightarrow> string
     \<Rightarrow> exn + (ConversationState \<times> AgentResponse option)" where
  "handle_field_input list_set state message field =
     (let partial = partial_issue_data state;
          user_input = strip message;
          store = (\<lambda>p. case get_next_field_prompt (state\<lparr>partial_issue_data := p\<rparr>) of
                          (s, r) \<Rightarrow> Inr (s, Some r));
          reject = (\<lambda>e. Inr (state, Some (get_field_prompt state field (Some e))))
      in
      if field \<in> set (map fst CHOICE_MAPS) then
        (case interpret_choice field user_input of
           Inl e \<Rightarrow> Inl e
         | Inr choice \<Rightarrow>
             if truthy choice then
               (case set_menu_field field (the choice) partial of
                  Inl e \<Rightarrow> Inl e
                | Inr p \<Rightarrow> store p)
             else reject ''Invalid choice. Please try again.'')
      else if field = ''summary'' then
        (if user_input \<noteq> [] then
           (if length user_input > 255 then
              reject (''Summary too long ('' @ str_nat (length user_input)
                @ '' characters). Please keep it under 255 characters and provide a brief title.'')
            else store (partial\<lparr>summary := Some user_input\<rparr>))
         else reject ''Summary cannot be empty. Please enter a title.'')
      else if field = ''description'' then
        (if is_skip user_input then store (partial\<lparr>description := None\<rparr>)
         else (let auto_labels = generate_labels_from_description user_input
               in if auto_labels \<noteq> []
                  then store (partial\<lparr>description := Some user_input, labels := auto_labels\<rparr>)
                  else store (partial\<lparr>description := Some user_input\<rparr>)))
      else if field = ''assignee'' then
        (if is_skip user_input then store (partial\<lparr>assignee := None\<rparr>)
         else if validate_email user_input then store (partial\<lparr>assignee := Some user_input\<rparr>)
         else reject ''Invalid email format. Please enter a valid email or 'skip'.'')
      else if field = ''start_date'' then
        (if is_skip user_input then store (partial\<lparr>start_date := None\<rparr>)
         else if validate_date user_input then store (partial\<lparr>start_date := Some user_input\<rparr>)
         else reject ''Invalid date format. Please use YYYY-MM-DD or 'skip'.'')
      else if field = ''due_date'' then
        (if is_skip user_input then store (partial\<lparr>due_date := None\<rparr>)
         else if validate_date user_input then store (partial\<lparr>due_date := Some user_input\<rparr>)
         else reject ''Invalid date format. Please use YYYY-MM-DD or 'skip'.'')
      else if field = ''parent_key'' then
        (if is_skip user_input then store (partial\<lparr>parent_key := None\<rparr>)
         else if match_issue_key (upper user_input)
         then store (partial\<lparr>parent_key := Some (upper user_input)\<rparr>)
         else reject ''Invalid issue key format. Use format like TJ-123 or 'skip'.'')
      else if field = ''labels'' then
        (if is_skip user_input then store partial
         else if lower user_input = ''clear'' then store (partial\<lparr>labels := []\<rparr>)
         else store (partial\<lparr>labels := list_set (labels partial @ manual_labels user_input)\<rparr>))
      else Inr (state, None))"

section \<open>Extraction\<close>

text \<open>
  The language model is outside the program. What one call to it comes to is a parameter
  of the turn: the call raises (\<open>InvokeRaises\<close>, with \<open>str(e)\<close>); its text is not JSON
  (\<open>NotJson\<close>, with the decoder's message); the JSON does not validate as an
  \<open>AgentResponse\<close> (\<open>InvalidShape\<close>); or it validates (\<open>Reply\<close>). The prompt sent to the
  model, built from the last five history entries, the draft and the awaited field, has
  no other effect, and is not modelled.
\<close>

datatype llm_outcome =
    InvokeRaises string
  | NotJson string
  | InvalidShape string
  | Reply AgentResponse

text \<open>
  \<open>_merge_issue_data\<close>: every field of \<open>new\<close> that is not \<open>None\<close> overwrites the copy of
  \<open>existing\<close>; \<open>labels\<close> is a list, never \<open>None\<close>, and is merged through a set.
\<close>

definition overwrite :: "'a option \<Rightarrow> 'a option \<Rightarrow> 'a option" where
  "overwrite old new = (case new of None \<Rightarrow> old | Some v \<Rightarrow> Some v)"

definition merge_issue_data ::
  "(string list \<Rightarrow> string list) \<Rightarrow> ExtractedIssueData \<Rightarrow> ExtractedIssueData
     \<Rightarrow> ExtractedIssueData" where
  "merge_issue_data list_set existing new =
     \<lparr>issue_type = overwrite (issue_type existing) (issue_type new),
      priority = overwrite (priority existing) (priority new),
      summary = overwrite (summary existing) (summary new),
      description = overwrite (description existing) (description new),
      assignee = overwrite (assignee existing) (assignee new),
      project_key = overwrite (project_key existing) (project_key new),
      labels = list_set (labels existing @ labels new),
      issue_key = overwrite (issue_key existing) (issue_key new),
      status = overwrite (status existing) (status new),
      due_date = overwrite (due_date existing) (due_date new),
      start_date = overwrite (start_date existing) (start_date new),
      parent_key = overwrite (parent_key existing) (parent_key new)\<rparr>"

definition llm_error_response :: "string \<Rightarrow> AgentResponse" where
  "llm_error_response e =
     \<lparr>intent = UNKNOWN, confidence = 0, extracted_data = empty_issue_data,
      missing_fields = [], next_question = None, ready_for_jira = False,
      response_message = Text
        (''I'm having trouble understanding that request. Try 'create an issue' or 'what's the status of TJ-123?''
         @ [CHR 0x27]),
      error = Some (''LLM error: '' @ e)\<rparr>"

definition json_error_response :: "string \<Rightarrow> AgentResponse" where
  "json_error_response e =
     \<lparr>intent = UNKNOWN, confidence = 0, extracted_data = empty_issue_data,
      missing_fields = [], next_question = None, ready_for_jira = False,
      response_message = Text
        (''I understand you want to work with Jira, but I need a clearer request. Try saying 'create an issue' or 'what's the status of TJ-123?''
         @ [CHR 0x27]),
      error = Some (''JSON parsing error: '' @ e)\<rparr>"

text \<open>The merge with the stored draft, when the reply's intent is the stored one.\<close>

definition merge_with_state ::
  "(string list \<Rightarrow> string list) \<Rightarrow> ConversationState \<Rightarrow> AgentResponse \<Rightarrow> AgentResponse" where
  "merge_with_state list_set state agent_response =
     (if current_intent state = Some (intent agent_response)
      then agent_response\<lparr>extracted_data :=
             merge_issue_data list_set (partial_issue_data state) (extracted_data agent_response)\<rparr>
      else agent_response)"

definition extract_intent_and_data ::
  "(string list \<Rightarrow> string list) \<Rightarrow> llm_outcome \<Rightarrow> ConversationState \<Rightarrow> AgentResponse" where
  "extract_intent_and_data list_set llm state =
     (case llm of
        InvokeRaises e \<Rightarrow> llm_error_response e
      | NotJson e \<Rightarrow> merge_with_state list_set state (json_error_response e)
      | InvalidShape e \<Rightarrow> llm_error_response e
      | Reply agent_response \<Rightarrow> merge_with_state list_set state agent_response)"

definition update_conversation_state :: "ConversationState \<Rightarrow> AgentResponse \<Rightarrow> ConversationState" where
  "update_conversation_state state response =
     (let s1 = (if intent response \<noteq> UNKNOWN
                then state\<lparr>current_intent := Some (intent response),
                           partial_issue_data := extracted_data response\<rparr>
                else state)
      in if missing_fields response \<noteq> []
         then s1\<lparr>awaiting_field := Some (hd (missing_fields response))\<rparr>
         else if \<not> ready_for_jira response then s1
         else s1\<lparr>awaiting_field := None\<rparr>)"

section \<open>A turn\<close>

definition say :: "history_entry \<Rightarrow> ConversationState \<Rightarrow> ConversationState" where
  "say entry state = state\<lparr>conversation_history := conversation_history state @ [entry]\<rparr>"

text \<open>
  The turn of \<open>process_message\<close> from the history append on, which runs when no reply
  to an awaited field was handled: the extractor is consulted, a \<open>create\<close> intent that is
  not ready starts guided collection, and the state is updated from the response.
\<close>

definition extraction_turn ::
  "(string list \<Rightarrow> string list) \<Rightarrow> llm_outcome \<Rightarrow> ConversationState \<Rightarrow> string
     \<Rightarrow> ConversationState \<times> AgentResponse" where
  "extraction_turn list_set llm state message =
     (let s1 = say (User message) state;
          r1 = extract_intent_and_data list_set llm s1;
          (s2, r2) = (if intent r1 = CREATE_ISSUE \<and> \<not> ready_for_jira r1
                      then start_interactive_collection s1 else (s1, r1));
          s3 = update_conversation_state s2 r2
      in (say (Agent (response_message r2)) s3, r2))"

text \<open>
  The \<open>try\<close> block of \<open>process_message\<close>, on the state of the user. \<open>Inl\<close> is an
  exception leaving the block. The places of the block that can raise (the conversion
  of a menu reply of digits, and a menu value outside its enumeration) raise before the
  state is written. A response object is
  always truthy, so \<open>if response:\<close> tests that \<open>_handle_field_input\<close> returned one.
\<close>

definition process_message_try ::
  "(string list \<Rightarrow> string list) \<Rightarrow> llm_outcome \<Rightarrow> ConversationState \<Rightarrow> string
     \<Rightarrow> exn + (ConversationState \<times> AgentResponse)" where
  "process_message_try list_set llm state message =
     (if truthy (awaiting_field state) then
        (case handle_field_input list_set state message (the (awaiting_field state)) of
           Inl e \<Rightarrow> Inl e
         | Inr (s, Some response) \<Rightarrow>
             Inr (say (Agent (response_message response)) (say (User message) s), response)
         | Inr (s, None) \<Rightarrow> Inr (extraction_turn list_set llm state message))
      else Inr (extraction_turn list_set llm state message))"

definition error_response :: "exn \<Rightarrow> AgentResponse" where
  "error_response e =
     \<lparr>intent = UNKNOWN, confidence = 0, extracted_data = empty_issue_data,
      missing_fields = [], next_question = None, ready_for_jira = False,
      response_message = Text ''Sorry, I encountered an error. Please try again.'',
      error = Some (str_exn e)\<rparr>"

text \<open>The agent: the dictionary of conversation states, by user.\<close>

record JiraAgent =
  conversation_states :: "string \<rightharpoonup> ConversationState"

definition get_conversation_state :: "JiraAgent \<Rightarrow> string \<Rightarrow> JiraAgent \<times> ConversationState" where
  "get_conversation_state agent phone =
     (case conversation_states agent phone of
        Some state \<Rightarrow> (agent, state)
      | None \<Rightarrow>
          (agent\<lparr>conversation_states :=
              (conversation_states agent)(phone \<mapsto> new_conversation_state phone)\<rparr>,
           new_conversation_state phone))"

text \<open>
  The \<open>except Exception\<close> clause of \<open>process_message\<close>: whatever leaves the \<open>try\<close>
  block becomes a response; a turn that ran to its end stores the state it reached.
\<close>

definition process_message_except ::
  "JiraAgent \<Rightarrow> string \<Rightarrow> exn + (ConversationState \<times> AgentResponse)
     \<Rightarrow> JiraAgent \<times> AgentResponse" where
  "process_message_except agent phone outcome =
     (case outcome of
        Inl e \<Rightarrow> (agent, error_response e)
      | Inr (state', response) \<Rightarrow>
          (agent\<lparr>conversation_states := (conversation_states agent)(phone \<mapsto> state')\<rparr>,
           response))"

text \<open>
  \<open>process_message\<close>. The result is the agent after the turn and the response returned
  to the caller.
\<close>

definition process_message ::
  "(string list \<Rightarrow> string list) \<Rightarrow> llm_outcome \<Rightarrow> JiraAgent \<Rightarrow> string \<Rightarrow> string
     \<Rightarrow> JiraAgent \<times> AgentResponse" where
  "process_message list_set llm agent phone message =
     (case get_conversation_state agent phone of
        (agent1, state) \<Rightarrow>
          process_message_except agent1 phone
            (process_message_try list_set llm state message))"

definition clear_conversation_state :: "JiraAgent \<Rightarrow> string \<Rightarrow> JiraAgent" where
  "clear_conversation_state agent phone =
     agent\<lparr>conversation_states := (conversation_states agent)(phone := None)\<rparr>"

text \<open>A conversation: the turns of one user, each with what the model call comes to.\<close>

fun converse ::
  "(string list \<Rightarrow> string list) \<Rightarrow> JiraAgent \<Rightarrow> string \<Rightarrow> (llm_outcome \<times> string) list
     \<Rightarrow> JiraAgent \<times> AgentResponse list" where
  "converse list_set agent phone [] = (agent, [])"
| "converse list_set agent phone ((llm, message) # turns) =
     (case process_message list_set llm agent phone message of
        (agent1, response) \<Rightarrow>
          (case converse list_set agent1 phone turns of
             (agent2, responses) \<Rightarrow> (agent2, response # responses)))"

definition new_agent :: JiraAgent where
  "new_agent = \<lparr>conversation_states = Map.empty\<rparr>"

text \<open>The state of a user, for one who has one.\<close>

definition state_of :: "JiraAgent \<Rightarrow> string \<Rightarrow> ConversationState" where
  "state_of agent phone = the (conversation_states agent phone)"

section \<open>Notions of the specification\<close>

text \<open>
  The definitions of this section are not code of the program. They say what the
  specification's sentences mean, so that the program can be compared with them.
\<close>

text \<open>The first occurrences of the elements of a list, in the order they are first seen.\<close>

definition first_seen :: "'a list \<Rightarrow> 'a list" where
  "first_seen xs = rev (remdups (rev xs))"

text \<open>The compound labels one of whose keywords occurs in the text, in dictionary order.\<close>

definition compound_matches :: "string \<Rightarrow> string list" where
  "compound_matches txt =
     map fst (filter (\<lambda>entry. list_ex (contains (lower txt)) (snd entry))
                compound_keywords)"

text \<open>
  A case-, space- and hyphen-insensitive variant of a choice: equal to it once both are
  lowercased and rid of their spaces and hyphens.
\<close>

definition insensitive_variant :: "string \<Rightarrow> string \<Rightarrow> bool" where
  "insensitive_variant opt txt =
     (replace_char CHR ''-'' [] (replace_char CHR '' '' [] (lower (strip txt))) = normalized opt)"

text \<open>
  An exact \<open>YYYY-MM-DD\<close> calendar date: four digits, a hyphen, two digits, a hyphen, two
  digits, naming a month from 1 to 12 and a day that the month has in that year.
\<close>

definition exact_calendar_date :: "string \<Rightarrow> bool" where
  "exact_calendar_date s =
     (length s = 10 \<and> list_all is_digit (take 4 s) \<and> s ! 4 = CHR ''-''
      \<and> list_all is_digit (take 2 (drop 5 s)) \<and> s ! 7 = CHR ''-''
      \<and> list_all is_digit (drop 8 s)
      \<and> 1 \<le> digits_value (take 4 s)
      \<and> 1 \<le> digits_value (take 2 (drop 5 s)) \<and> digits_value (take 2 (drop 5 s)) \<le> 12
      \<and> 1 \<le> digits_value (drop 8 s)
      \<and> digits_value (drop 8 s) \<le> days_in_month (digits_value (take 4 s)) (digits_value (take 2 (drop 5 s))))"

text \<open>Whether a field of the draft is unset (for the labels: empty).\<close>

definition field_unset :: "ExtractedIssueData \<Rightarrow> string \<Rightarrow> bool" where
  "field_unset draft field =
     (if field = ''issue_type'' then issue_type draft = None
      else if field = ''priority'' then priority draft = None
      else if field = ''status'' then status draft = None
      else if field = ''summary'' then summary draft = None
      else if field = ''description'' then description draft = None
      else if field = ''assignee'' then assignee draft = None
      else if field = ''start_date'' then start_date draft = None
      else if field = ''due_date'' then due_date draft = None
      else if field = ''parent_key'' then parent_key draft = None
      else if field = ''labels'' then labels draft = []
      else False)"

text \<open>The first gap of a draft: the first field, in registry order, that is unset in it.\<close>

definition first_gap :: "ExtractedIssueData \<Rightarrow> string option" where
  "first_gap draft = find (field_unset draft) FIELD_ORDER"

text \<open>
  The format rules of the fields, in the specification's words. A menu reply is a 1-based
  index into the choices or an insensitive variant of a choice; a summary is not empty
  and has at most 255 characters; the optional fields take a skip word (\<open>skip\<close>,
  \<open>none\<close> or nothing), and otherwise an assignee of the shape \<open>local@domain.tld\<close>, a
  date that is an exact \<open>YYYY-MM-DD\<close> calendar date, and a parent key that, in upper
  case, is letters, a hyphen and digits.
\<close>

definition skip_word :: "string \<Rightarrow> bool" where
  "skip_word u = (lower u \<in> set [''skip'', ''none'', []])"

definition menu_index :: "string list \<Rightarrow> string \<Rightarrow> bool" where
  "menu_index opts u =
     (isdigit u \<and> 1 \<le> digits_value u \<and> digits_value u \<le> int (length opts))"

definition meets_format_rule :: "string \<Rightarrow> string \<Rightarrow> bool" where
  "meets_format_rule field u =
     (if field \<in> set [''issue_type'', ''priority'', ''status'']
      then menu_index (choices field) u
           \<or> list_ex (\<lambda>opt. insensitive_variant opt u) (choices field)
      else if field = ''summary'' then u \<noteq> [] \<and> length u \<le> 255
      else if field = ''assignee'' then skip_word u \<or> email_shape u
      else if field \<in> set [''start_date'', ''due_date'']
      then skip_word u \<or> exact_calendar_date u
      else if field = ''parent_key'' then skip_word u \<or> issue_key_shape (upper u)
      else True)"

definition fails_format_rule :: "string \<Rightarrow> string \<Rightarrow> bool" where
  "fails_format_rule field u = (\<not> meets_format_rule field u)"

text \<open>
  The turns that reach the extractor: no field is awaited, or the awaited name is none
  that guided collection knows.
\<close>

definition consults_extractor :: "ConversationState \<Rightarrow> bool" where
  "consults_extractor state =
     (case awaiting_field state of
        None \<Rightarrow> True
      | Some field \<Rightarrow> field = [] \<or> field \<notin> set FIELD_ORDER)"

text \<open>The required fields of a draft are set: present, and the texts not empty.\<close>

definition required_set :: "ExtractedIssueData \<Rightarrow> bool" where
  "required_set draft =
     (issue_type draft \<noteq> None \<and> priority draft \<noteq> None
      \<and> truthy (summary draft) \<and> truthy (description draft))"

text \<open>The labels \<open>old\<close> stand in \<open>new\<close> in the order they had.\<close>

definition order_kept :: "string list \<Rightarrow> string list \<Rightarrow> bool" where
  "order_kept old new = (filter (\<lambda>l. l \<in> set old) new = old)"

section \<open>Auxiliary definitions for the proofs\<close>

text \<open>\<open>interpret_choice\<close> after the reply has been trimmed and lowercased.\<close>

definition match_choice :: "string \<Rightarrow> string \<Rightarrow> exn + string option" where
  "match_choice field t =
     (if isdigit t then
        (case py_int t of
           Inl e \<Rightarrow> Inl e
         | Inr n \<Rightarrow>
             if 0 \<le> n - 1 \<and> n - 1 < int (length (choices field))
             then Inr (Some (choices field ! nat (n - 1)))
             else Inr (text_choice (choices field) t))
      else Inr (text_choice (choices field) t))"

text \<open>Every menu field with each of its choices.\<close>

definition menu_pairs :: "(string \<times> string) list" where
  "menu_pairs = concat (map (\<lambda>(field, opts). map (Pair field) opts) CHOICE_MAPS)"

text \<open>
  What \<open>_handle_field_input\<close> can come to: an exception, the \<open>None\<close> of an unknown
  field, the re-prompt of the field with an error, or a draft stored and the next
  prompt.
\<close>

definition guided_outcome ::
  "ConversationState \<Rightarrow> string \<Rightarrow> exn + (ConversationState \<times> AgentResponse option) \<Rightarrow> bool" where
  "guided_outcome state field h =
     ((\<exists>e. h = Inl e)
      \<or> h = Inr (state, None)
      \<or> (\<exists>m. h = Inr (state, Some (get_field_prompt state field (Some m))))
      \<or> (\<exists>p. h = (case get_next_field_prompt (state\<lparr>partial_issue_data := p\<rparr>) of
                     (s, r) \<Rightarrow> Inr (s, Some r))))"

text \<open>A reply as \<open>interpret_choice\<close> compares it: trimmed and lowercased.\<close>

abbreviation trimmed_lower :: "string \<Rightarrow> string" where
  "trimmed_lower txt \<equiv> lower (strip txt)"

text \<open>The state reached by a turn that ran to its end.\<close>

definition state_after :: "exn + (ConversationState \<times> AgentResponse) \<Rightarrow> ConversationState" where
  "state_after outcome = fst (projr outcome)"

section \<open>Sample inputs\<close>

text \<open>A draft with the four required fields and nothing else.\<close>

definition sample_draft :: ExtractedIssueData where
  "sample_draft = empty_issue_data\<lparr>issue_type := Some TASK, priority := Some HIGH,
     summary := Some ''Fix login'', description := Some ''login crash on mobile''\<rparr>"

text \<open>A user who is asked for the labels and has collected \<open>api\<close> and \<open>login\<close>.\<close>

definition labels_state :: ConversationState where
  "labels_state = (new_conversation_state ''u'')
     \<lparr>partial_issue_data := empty_issue_data\<lparr>labels := [''api'', ''login'']\<rparr>,
      awaiting_field := Some ''labels''\<rparr>"


text \<open>An iteration order of sets: the distinct elements, last first.\<close>

definition last_first :: "string list \<Rightarrow> string list" where
  "last_first xs = rev (remdups xs)"

text \<open>Replies of the extractor: a \<open>create\<close> intent that is not ready, with an empty draft
  and with an issue type; an \<open>update\<close> intent with an issue type; and a \<open>query\<close> intent
  flagged ready that still names a missing field and asks a question.\<close>

definition create_reply :: AgentResponse where
  "create_reply =
     \<lparr>intent = CREATE_ISSUE, confidence = 1, extracted_data = empty_issue_data,
      missing_fields = [], next_question = None, ready_for_jira = False,
      response_message = Text ''Creating an issue.'', error = None\<rparr>"

definition typed_create_reply :: AgentResponse where
  "typed_create_reply = create_reply\<lparr>extracted_data := empty_issue_data\<lparr>issue_type := Some TASK\<rparr>\<rparr>"

definition update_reply :: AgentResponse where
  "update_reply =
     \<lparr>intent = UPDATE_ISSUE, confidence = 1,
      extracted_data = empty_issue_data\<lparr>issue_type := Some TASK\<rparr>,
      missing_fields = [], next_question = None, ready_for_jira = False,
      response_message = Text ''It is a task now.'', error = None\<rparr>"

definition ready_query_reply :: AgentResponse where
  "ready_query_reply =
     \<lparr>intent = QUERY_ISSUE, confidence = 1, extracted_data = empty_issue_data,
      missing_fields = [''issue_key''], next_question = Some (Text ''Which issue?''),
      ready_for_jira = True, response_message = Text ''Which issue?'', error = None\<rparr>"

text \<open>
  A conversation of a new user: a request to create an issue, then the replies to the
  ten prompts, the description and the optional fields skipped. The extractor is
  consulted in the first turn only.
\<close>

definition skipped_description_turns :: "(llm_outcome \<times> string) list" where
  "skipped_description_turns =
     (Reply create_reply, ''create a task'')
     # map (Pair (InvokeRaises []))
         [''1'', ''2'', ''1'', ''Fix login'', ''skip'', ''skip'', ''skip'', ''skip'', ''skip'', ''skip'']"

text \<open>A conversation of a new user: an update that sets the issue type, then a request to
  create an issue.\<close>

definition type_then_create_turns :: "(llm_outcome \<times> string) list" where
  "type_then_create_turns =
     [(Reply update_reply, ''make it a task''), (Reply create_reply, ''create an issue'')]"



definition due_date_state :: ConversationState where
  "due_date_state = (new_conversation_state ''u'')\<lparr>awaiting_field := Some ''due_date''\<rparr>"

definition due_date_agent :: JiraAgent where
  "due_date_agent = \<lparr>conversation_states = [''u'' \<mapsto> due_date_state]\<rparr>"


section \<open>Properties of label inference\<close>

lemma first_seen_snoc:
  "first_seen (xs @ [x]) = (if x \<in> set xs then first_seen xs else first_seen xs @ [x])"
  by (simp add: first_seen_def)

lemma set_first_seen: "set (first_seen xs) = set xs"
  by (simp add: first_seen_def)

lemma simple_scan_first_seen:
  "fold add_word ws [] = first_seen (filter (\<lambda>w. w \<in> set tech_keywords) ws)"
proof (induction ws rule: rev_induct)
  case Nil
  show ?case by (simp add: first_seen_def)
next
  case (snoc w ws)
  have step: "fold add_word (ws @ [w]) [] = add_word w (fold add_word ws [])"
    by simp
  show ?case
    unfolding step snoc.IH
    by (simp add: add_word_def first_seen_snoc set_first_seen)
qed

lemma compound_labels_distinct: "distinct (map fst compound_keywords)"
  by (simp add: compound_keywords_def)

lemma compound_matches_sub: "set (compound_matches d) \<subseteq> set (map fst compound_keywords)"
  unfolding compound_matches_def by auto

lemma distinct_compound_matches: "distinct (compound_matches d)"
  unfolding compound_matches_def
  by (rule distinct_map_filter) (rule compound_labels_distinct)

lemma compound_matches_empty: "compound_matches [] = []"
  by code_simp

lemma add_compound_fresh:
  "fst entry \<notin> set found \<Longrightarrow>
   add_compound dl entry found
     = found @ (if list_ex (contains dl) (snd entry) then [fst entry] else [])"
  by (simp add: add_compound_def)

lemma set_add_compound: "set (add_compound dl entry found) \<subseteq> insert (fst entry) (set found)"
  unfolding add_compound_def by (simp add: subset_insertI)

lemma fold_add_compound_gen:
  "distinct (map fst entries) \<Longrightarrow> set (map fst entries) \<inter> set found = {} \<Longrightarrow>
   fold (add_compound dl) entries found
     = found @ map fst (filter (\<lambda>entry. list_ex (contains dl) (snd entry)) entries)"
proof (induction entries arbitrary: found)
  case Nil
  show ?case by simp
next
  case (Cons e es)
  have fresh: "fst e \<notin> set found" using Cons.prems(2) by simp
  have d: "distinct (map fst es)" using Cons.prems(1) by simp
  have ne: "fst e \<notin> set (map fst es)" using Cons.prems(1) by simp
  have dis: "set (map fst es) \<inter> set found = {}" using Cons.prems(2) by simp
  have i: "set (map fst es) \<inter> set (add_compound dl e found) = {}"
    using set_add_compound [of dl e found] ne dis by blast
  have "fold (add_compound dl) (e # es) found = fold (add_compound dl) es (add_compound dl e found)"
    by simp
  also have "\<dots> = add_compound dl e found
                 @ map fst (filter (\<lambda>entry. list_ex (contains dl) (snd entry)) es)"
    by (rule Cons.IH [OF d i])
  also have "\<dots> = found @ map fst (filter (\<lambda>entry. list_ex (contains dl) (snd entry)) (e # es))"
    by (simp add: add_compound_fresh [OF fresh])
  finally show ?case .
qed

lemma simple_matches_keywords: "set (simple_matches d) \<subseteq> set tech_keywords"
  unfolding simple_matches_def simple_scan_first_seen set_first_seen by auto

lemma compound_not_keyword:
  "''two-factor'' \<notin> set tech_keywords" "''single-sign-on'' \<notin> set tech_keywords"
  "''real-time'' \<notin> set tech_keywords" "''third-party'' \<notin> set tech_keywords"
  "''end-to-end'' \<notin> set tech_keywords"
  by (simp_all add: tech_keywords_def)

lemma compound_labels_not_keywords: "set (map fst compound_keywords) \<inter> set tech_keywords = {}"
  using compound_not_keyword by (simp add: compound_keywords_def)

lemma labels_closed_form:
  "generate_labels_from_description d
     = take 5 (first_seen (filter (\<lambda>w. w \<in> set tech_keywords) (findall_words (lower d)))
               @ compound_matches d)"
proof (cases "d = []")
  case True
  have "findall_words (lower []) = []"
    by (simp add: findall_words_def lower_def)
  then show ?thesis
    using True
    by (simp add: generate_labels_from_description_def first_seen_def compound_matches_empty)
next
  case False
  have k: "set (map fst compound_keywords) \<inter> set (simple_matches d) = {}"
    using compound_labels_not_keywords simple_matches_keywords [of d] by blast
  have "fold (add_compound (lower d)) compound_keywords (simple_matches d)
          = simple_matches d @ compound_matches d"
    unfolding compound_matches_def
    by (rule fold_add_compound_gen [OF compound_labels_distinct k])
  then show ?thesis
    using False
    by (simp add: generate_labels_from_description_def simple_matches_def
          simple_scan_first_seen)
qed

lemma distinct_generate_labels: "distinct (generate_labels_from_description d)"
proof -
  let ?s = "first_seen (filter (\<lambda>w. w \<in> set tech_keywords) (findall_words (lower d)))"
  have s: "set ?s \<subseteq> set tech_keywords"
    unfolding set_first_seen by auto
  have "set ?s \<inter> set (compound_matches d) = {}"
    using s compound_matches_sub [of d] compound_labels_not_keywords by blast
  then have "distinct (?s @ compound_matches d)"
    by (simp add: first_seen_def distinct_compound_matches)
  then show ?thesis
    unfolding labels_closed_form by (rule distinct_take)
qed

lemma example_labels:
  "generate_labels_from_description ''API timeout on login for mobile users''
     = [''api'', ''timeout'', ''login'', ''mobile'', ''real-time'']"
  by code_simp

text \<open>
  Claim C5. Label inference is a function of the text alone: equal texts give the same
  list. The list has no duplicates and at most five entries; it is the first five of the
  keywords among the words of the lowercased text, in the order they are first seen,
  followed by the compound labels whose keywords occur; and for the text
  \<open>API timeout on login for mobile users\<close> it holds \<open>api\<close>, \<open>login\<close> and \<open>mobile\<close>.
\<close>

theorem label_inference_deterministic_capped:
  assumes "ascii_text d" and "d' = d"
  shows "generate_labels_from_description d' = generate_labels_from_description d
       \<and> distinct (generate_labels_from_description d)
       \<and> length (generate_labels_from_description d) \<le> 5
       \<and> generate_labels_from_description d
           = take 5 (first_seen (filter (\<lambda>w. w \<in> set tech_keywords) (findall_words (lower d)))
                     @ compound_matches d)
       \<and> ''api'' \<in> set (generate_labels_from_description ''API timeout on login for mobile users'')
       \<and> ''login'' \<in> set (generate_labels_from_description ''API timeout on login for mobile users'')
       \<and> ''mobile'' \<in> set (generate_labels_from_description ''API timeout on login for mobile users'')"
proof -
  have "length (generate_labels_from_description d) \<le> 5"
    unfolding labels_closed_form by simp
  then show ?thesis
    using assms(2) distinct_generate_labels [of d] labels_closed_form [of d]
    by (simp add: example_labels)
qed

text \<open>The theorem of C5 at the text \<open>api api crash\<close>.\<close>

theorem label_inference_witness:
  "ascii_text ''api api crash''
   \<and> generate_labels_from_description ''api api crash'' = [''api'', ''crash'']
   \<and> distinct (generate_labels_from_description ''api api crash'')
   \<and> length (generate_labels_from_description ''api api crash'') \<le> 5"
proof -
  have a: "ascii_text ''api api crash''" by code_simp
  have v: "generate_labels_from_description ''api api crash'' = [''api'', ''crash'']" by code_simp
  from label_inference_deterministic_capped [OF a refl]
  have d: "distinct (generate_labels_from_description ''api api crash'')"
    and l: "length (generate_labels_from_description ''api api crash'') \<le> 5"
    by blast+
  show ?thesis
    using a v d l by blast
qed

section \<open>Properties of direct validation\<close>

lemma process_direct_is_240: "process_direct_issue_creation = process_direct_issue_creation_240"
  by (simp add: process_direct_issue_creation_def JiraAgent_body_def)

lemma direct_missing_none: "required_set d \<Longrightarrow> direct_missing_fields d = []"
  by (auto simp: required_set_def direct_missing_fields_def)

text \<open>
  Claim C10. A draft given to the direct path with its four required fields set and no
  project key comes back ready, with the project key \<open>MFLP\<close>: the method of the class
  is the second definition, and \<open>TJ\<close>, the default of the first, is not what it gives.
\<close>

theorem direct_default_project_key_MFLP:
  assumes "required_set d" and "project_key d = None"
  shows "ready_for_jira (process_direct_issue_creation d)
       \<and> project_key (extracted_data (process_direct_issue_creation d)) = Some ''MFLP''
       \<and> project_key (extracted_data (process_direct_issue_creation d)) \<noteq> Some ''TJ''
       \<and> process_direct_issue_creation \<noteq> process_direct_issue_creation_145"
proof -
  have r: "ready_for_jira (process_direct_issue_creation d)
       \<and> project_key (extracted_data (process_direct_issue_creation d)) = Some ''MFLP''"
    using assms
    by (simp add: process_direct_is_240 process_direct_issue_creation_240_def
        direct_issue_creation_def direct_missing_none Let_def truthy_def)
  have "project_key (extracted_data (process_direct_issue_creation_145 d)) = Some ''TJ''"
    using assms
    by (simp add: process_direct_issue_creation_145_def
        direct_issue_creation_def direct_missing_none Let_def truthy_def)
  then have "process_direct_issue_creation \<noteq> process_direct_issue_creation_145"
    using r by auto
  then show ?thesis using r by simp
qed

text \<open>The theorem of C10 at the sample draft.\<close>

theorem direct_default_project_key_witness:
  "required_set sample_draft \<and> project_key sample_draft = None
   \<and> project_key (extracted_data (process_direct_issue_creation sample_draft)) = Some ''MFLP''"
proof -
  have a: "required_set sample_draft" by code_simp
  have b: "project_key sample_draft = None" by code_simp
  from direct_default_project_key_MFLP [OF a b]
  have c: "project_key (extracted_data (process_direct_issue_creation sample_draft)) = Some ''MFLP''"
    by blast
  show ?thesis
    using a b c by blast
qed

section \<open>Date validation\<close>

text \<open>
  Claim C8. \<open>validate_date\<close> is documented to validate the format \<open>YYYY-MM-DD\<close>, and the
  claim has it accept exact \<open>YYYY-MM-DD\<close> calendar dates only. The parser it calls also
  takes a month or day of one digit, and a day written as a space and a digit: the
  replies \<open>2025-1-5\<close> and \<open>2025-01- 5\<close> are accepted and are no exact \<open>YYYY-MM-DD\<close> dates.
  The empty text and an exact date are accepted, and 30 February and month 13 refused.
\<close>

theorem validate_date_accepts_unpadded:
  "validate_date ''2025-1-5'' \<and> \<not> exact_calendar_date ''2025-1-5''
   \<and> validate_date ''2025-01- 5'' \<and> \<not> exact_calendar_date ''2025-01- 5''
   \<and> validate_date [] \<and> validate_date ''2025-01-05'' \<and> exact_calendar_date ''2025-01-05''
   \<and> \<not> validate_date ''2025-02-30'' \<and> \<not> validate_date ''2025-13-01''"
  by code_simp

section \<open>Guided collection: replies to an awaited field\<close>

lemma dropWhile_strip_front: "dropWhile is_space (strip s) = strip s"
proof -
  let ?a = "dropWhile is_space s"
  have "rev (dropWhile is_space (rev ?a)) @ rev (takeWhile is_space (rev ?a))
          = rev (takeWhile is_space (rev ?a) @ dropWhile is_space (rev ?a))"
    by (simp only: rev_append)
  also have "\<dots> = ?a"
    by (simp only: takeWhile_dropWhile_id rev_rev_ident)
  finally have split: "?a = strip s @ rev (takeWhile is_space (rev ?a))"
    by (simp only: strip_def)
  show ?thesis
  proof (cases "strip s")
    case Nil
    then show ?thesis by simp
  next
    case (Cons c cs)
    have "?a = c # (cs @ rev (takeWhile is_space (rev ?a)))"
      using split unfolding Cons by (simp only: append_Cons)
    then have "\<not> is_space c"
      using dropWhile_eq_Cons_conv [of is_space s c] by blast
    then show ?thesis using Cons by simp
  qed
qed

lemma strip_idem: "strip (strip s) = strip s"
proof -
  have "strip (strip s) = rev (dropWhile is_space (rev (strip s)))"
    unfolding strip_def [of "strip s"] dropWhile_strip_front ..
  also have "\<dots> = rev (dropWhile is_space (dropWhile is_space (rev (dropWhile is_space s))))"
    by (simp add: strip_def)
  also have "\<dots> = strip s"
    by (simp add: strip_def)
  finally show ?thesis .
qed

lemma interpret_choice_match:
  "interpret_choice field txt = match_choice field (lower (strip txt))"
  by (simp add: interpret_choice_def match_choice_def Let_def)

lemma menu_fields: "set (map fst CHOICE_MAPS) = {''issue_type'', ''priority'', ''status''}"
  by (simp add: CHOICE_MAPS_def)

lemma menu_pairs_match:
  "list_all (\<lambda>(field, opt). match_choice field (lower opt) = Inr (Some opt)
                          \<and> match_choice field (normalized opt) = Inr (Some opt)) menu_pairs"
  by code_simp

lemma menu_pairs_mem:
  assumes "field \<in> set (map fst CHOICE_MAPS)" and "opt \<in> set (choices field)"
  shows "(field, opt) \<in> set menu_pairs"
proof -
  have "field = ''issue_type'' \<or> field = ''priority'' \<or> field = ''status''"
    using assms(1) unfolding menu_fields by simp
  then show ?thesis
    using assms(2)
    by (elim disjE) (simp_all add: choices_def CHOICE_MAPS_def menu_pairs_def)
qed

lemma match_choice_variant:
  assumes "field \<in> set (map fst CHOICE_MAPS)" and "opt \<in> set (choices field)"
  shows "match_choice field (lower opt) = Inr (Some opt)"
    and "match_choice field (normalized opt) = Inr (Some opt)"
  using menu_pairs_match menu_pairs_mem [OF assms]
  by (auto simp: list_all_iff)

lemma match_choice_mem: "match_choice field t = Inr (Some c) \<Longrightarrow> c \<in> set (choices field)"
  by (auto simp: match_choice_def text_choice_def find_Some_iff split: if_splits sum.splits)

lemma py_int_within: "length t \<le> 4300 \<Longrightarrow> py_int t = Inr (digits_value t)"
  by (simp add: py_int_def int_max_str_digits_def)


lemma match_choice_raise:
  assumes "match_choice field t = Inl x"
  shows "isdigit t \<and> length t > 4300 \<and> x = conversion_limit_error (length t)"
  using assms
  by (auto simp: match_choice_def py_int_def int_max_str_digits_def split: if_splits)


lemma set_menu_field_ok:
  assumes "field \<in> set (map fst CHOICE_MAPS)" and "c \<in> set (choices field)"
  shows "\<exists>p. set_menu_field field c partial = Inr p"
proof -
  have "field = ''issue_type'' \<or> field = ''priority'' \<or> field = ''status''"
    using assms(1) unfolding menu_fields by simp
  then show ?thesis
    using assms(2)
    by (elim disjE) (auto simp: choices_def CHOICE_MAPS_def set_menu_field_def)
qed

lemma get_field_prompt_simps:
  "intent (get_field_prompt state field err) = CREATE_ISSUE"
  "extracted_data (get_field_prompt state field err) = partial_issue_data state"
  "missing_fields (get_field_prompt state field err) = [field]"
  "ready_for_jira (get_field_prompt state field err) = False"
  "response_message (get_field_prompt state field err)
     = FieldPrompt field (if truthy err then err else None)
         (if field = ''labels'' then labels (partial_issue_data state) else [])"
  "next_question (get_field_prompt state field err)
     = Some (response_message (get_field_prompt state field err))"
  "error (get_field_prompt state field err) = None"
  by (simp_all add: get_field_prompt_def Let_def)

lemma next_field_prompt_cases:
  "get_next_field_prompt state
     = (state\<lparr>awaiting_field := None\<rparr>,
        \<lparr>intent = CREATE_ISSUE, confidence = 1,
         extracted_data = partial_issue_data state, missing_fields = [],
         next_question = None, ready_for_jira = True,
         response_message = ReadyMessage (issue_type (partial_issue_data state)),
         error = None\<rparr>)
   \<or> (\<exists>next_field. get_next_field_prompt state
         = (state\<lparr>awaiting_field := Some next_field\<rparr>,
            get_field_prompt (state\<lparr>awaiting_field := Some next_field\<rparr>) next_field None))"
  by (auto simp: get_next_field_prompt_def Let_def split: option.split)

lemma next_field_prompt_ready:
  assumes "get_next_field_prompt state = (s, r)" and "ready_for_jira r"
  shows "missing_fields r = [] \<and> next_question r = None \<and> awaiting_field s = None"
  using next_field_prompt_cases [of state] assms
  by (auto simp: get_field_prompt_simps)


lemma guided_outcome_intros:
  "guided_outcome state field (Inl e)"
  "guided_outcome state field (Inr (state, None))"
  "guided_outcome state field (Inr (state, Some (get_field_prompt state field (Some m))))"
  "guided_outcome state field
     (case get_next_field_prompt (state\<lparr>partial_issue_data := p\<rparr>) of
        (s, r) \<Rightarrow> Inr (s, Some r))"
  unfolding guided_outcome_def by blast+

lemma guided_outcome_if:
  "guided_outcome state field a \<Longrightarrow> guided_outcome state field b
   \<Longrightarrow> guided_outcome state field (if c then a else b)"
  by simp

lemma guided_outcome_sum:
  "(\<And>e. guided_outcome state field (f e)) \<Longrightarrow> (\<And>p. guided_outcome state field (g p))
   \<Longrightarrow> guided_outcome state field (case x of Inl e \<Rightarrow> f e | Inr p \<Rightarrow> g p)"
  by (cases x) simp_all

lemma handle_field_input_outcome:
  "guided_outcome state field (handle_field_input list_set state message field)"
  unfolding handle_field_input_def Let_def
  by (intro guided_outcome_if guided_outcome_sum guided_outcome_intros)


lemma menu_image: "fst ` set CHOICE_MAPS = {''issue_type'', ''priority'', ''status''}"
  by (simp add: CHOICE_MAPS_def)

lemma handle_labels:
  "handle_field_input list_set state message ''labels''
     = (case get_next_field_prompt
          (state\<lparr>partial_issue_data :=
             (if is_skip (strip message) then partial_issue_data state
              else if lower (strip message) = ''clear''
              then (partial_issue_data state)\<lparr>labels := []\<rparr>
              else (partial_issue_data state)\<lparr>labels :=
                     list_set (labels (partial_issue_data state)
                               @ manual_labels (strip message))\<rparr>)\<rparr>) of
          (s, r) \<Rightarrow> Inr (s, Some r))"
  by (simp add: handle_field_input_def menu_image Let_def)

lemma handle_unknown_field:
  "field \<notin> set FIELD_ORDER \<Longrightarrow>
   handle_field_input list_set state message field = Inr (state, None)"
  by (simp add: handle_field_input_def FIELD_ORDER_def menu_image Let_def)

lemma handle_reject_menu:
  assumes "field \<in> set (map fst CHOICE_MAPS)"
    and "interpret_choice field (strip message) = Inr None"
  shows "\<exists>e. e \<noteq> [] \<and> handle_field_input list_set state message field
           = Inr (state, Some (get_field_prompt state field (Some e)))"
  using assms
  by (intro exI [of _ "''Invalid choice. Please try again.''"]) (simp add: handle_field_input_def Let_def truthy_def)

lemma handle_reject_summary:
  assumes "strip message = [] \<or> length (strip message) > 255"
  shows "\<exists>e. e \<noteq> [] \<and> handle_field_input list_set state message ''summary''
           = Inr (state, Some (get_field_prompt state ''summary'' (Some e)))"
  using assms by (auto simp: handle_field_input_def Let_def menu_image)

lemma handle_reject_assignee:
  assumes "\<not> is_skip (strip message)" and "\<not> validate_email (strip message)"
  shows "\<exists>e. e \<noteq> [] \<and> handle_field_input list_set state message ''assignee''
           = Inr (state, Some (get_field_prompt state ''assignee'' (Some e)))"
  using assms
  by (intro exI [of _ "''Invalid email format. Please enter a valid email or 'skip'.''"]) (simp add: handle_field_input_def Let_def menu_image)

lemma handle_reject_start_date:
  assumes "\<not> is_skip (strip message)" and "\<not> validate_date (strip message)"
  shows "\<exists>e. e \<noteq> [] \<and> handle_field_input list_set state message ''start_date''
           = Inr (state, Some (get_field_prompt state ''start_date'' (Some e)))"
  using assms
  by (intro exI [of _ "''Invalid date format. Please use YYYY-MM-DD or 'skip'.''"]) (simp add: handle_field_input_def Let_def menu_image)

lemma handle_reject_due_date:
  assumes "\<not> is_skip (strip message)" and "\<not> validate_date (strip message)"
  shows "\<exists>e. e \<noteq> [] \<and> handle_field_input list_set state message ''due_date''
           = Inr (state, Some (get_field_prompt state ''due_date'' (Some e)))"
  using assms
  by (intro exI [of _ "''Invalid date format. Please use YYYY-MM-DD or 'skip'.''"]) (simp add: handle_field_input_def Let_def menu_image)

lemma handle_reject_parent_key:
  assumes "\<not> is_skip (strip message)" and "\<not> match_issue_key (upper (strip message))"
  shows "\<exists>e. e \<noteq> [] \<and> handle_field_input list_set state message ''parent_key''
           = Inr (state, Some (get_field_prompt state ''parent_key'' (Some e)))"
  using assms
  by (intro exI [of _ "''Invalid issue key format. Use format like TJ-123 or 'skip'.''"]) (simp add: handle_field_input_def Let_def menu_image)


lemma handle_reject_menu_eq:
  assumes "field \<in> set (map fst CHOICE_MAPS)"
    and "interpret_choice field (strip message) = Inr None"
  shows "handle_field_input list_set state message field
           = Inr (state, Some (get_field_prompt state field
               (Some ''Invalid choice. Please try again.'')))"
  using assms by (simp add: handle_field_input_def Let_def truthy_def)

lemma process_try_guided:
  assumes "awaiting_field state = Some field" and "field \<noteq> []"
    and "handle_field_input list_set state message field = Inr (s, Some r)"
  shows "process_message_try list_set llm state message
           = Inr (say (Agent (response_message r)) (say (User message) s), r)"
  using assms by (simp add: process_message_try_def truthy_def)

lemma process_message_stored:
  assumes "conversation_states agent phone = Some state"
    and "process_message_try list_set llm state message = Inr (s, r)"
  shows "process_message list_set llm agent phone message
           = (agent\<lparr>conversation_states := (conversation_states agent)(phone \<mapsto> s)\<rparr>, r)"
  using assms
  by (simp add: process_message_def get_conversation_state_def process_message_except_def)

lemma state_of_stored:
  "state_of (agent\<lparr>conversation_states := (conversation_states agent)(phone \<mapsto> s)\<rparr>) phone = s"
  by (simp add: state_of_def)

lemma say_simps:
  "partial_issue_data (say entry state) = partial_issue_data state"
  "awaiting_field (say entry state) = awaiting_field state"
  "current_intent (say entry state) = current_intent state"
  "conversation_history (say entry state) = conversation_history state @ [entry]"
  by (simp_all add: say_def)

lemma process_message_raise:
  assumes "get_conversation_state agent phone = (agent1, state)"
    and "process_message_try list_set llm state message = Inl x"
  shows "process_message list_set llm agent phone message = (agent1, error_response x)"
  using assms by (simp add: process_message_def process_message_except_def)

lemma handle_raise_menu:
  assumes "field \<in> set (map fst CHOICE_MAPS)" and "interpret_choice field (strip message) = Inl x"
  shows "handle_field_input list_set state message field = Inl x"
  using assms by (simp add: handle_field_input_def Let_def)


text \<open>
  Claim C6. The claim has a malformed date re-prompted, the draft and the awaited field
  unchanged. The reply \<open>2025-1-5\<close> to the due date prompt is no exact \<open>YYYY-MM-DD\<close>
  date, so it fails the format rule of the field; the turn stores it as the due date and
  goes on to the parent key.
\<close>

theorem malformed_date_stored_and_advanced:
  "conversation_states due_date_agent ''u'' = Some due_date_state
   \<and> awaiting_field due_date_state = Some ''due_date''
   \<and> due_date (partial_issue_data due_date_state) = None
   \<and> fails_format_rule ''due_date'' (strip ''2025-1-5'')
   \<and> due_date (partial_issue_data (state_of (fst (process_message remdups (InvokeRaises [])
        due_date_agent ''u'' ''2025-1-5'')) ''u'')) = Some ''2025-1-5''
   \<and> awaiting_field (state_of (fst (process_message remdups (InvokeRaises [])
        due_date_agent ''u'' ''2025-1-5'')) ''u'') = Some ''parent_key''
   \<and> error (snd (process_message remdups (InvokeRaises [])
        due_date_agent ''u'' ''2025-1-5'')) = None"
  by code_simp

section \<open>Menu replies\<close>

lemma interpret_choice_strip: "interpret_choice field (strip message) = interpret_choice field message"
  by (simp add: interpret_choice_match strip_idem)

text \<open>
  Claim C3, as the code has it. For a menu field and a reply that, trimmed, has at most
  4300 characters: a reply that, trimmed and lowercased, is a number from 1 to the number
  of choices gives the choice at that place; a reply that, trimmed and lowercased, is the
  lowercased name of a choice, or that name without its spaces and hyphens, gives that
  choice; and a reply that is neither gives no choice, and \<open>_handle_field_input\<close>
  returns the prompt of the same field with the invalid-choice error, the state (so the
  awaited field) as it was.
\<close>

theorem menu_choice_interpretation:
  assumes "field \<in> set (map fst CHOICE_MAPS)" and "ascii_text message"
    and "length (trimmed_lower message) \<le> 4300"
  shows "(isdigit (trimmed_lower message) \<and> 1 \<le> digits_value (trimmed_lower message)
            \<and> digits_value (trimmed_lower message) \<le> int (length (choices field))
          \<longrightarrow> interpret_choice field message
                = Inr (Some (choices field ! nat (digits_value (trimmed_lower message) - 1))))
       \<and> (\<forall>opt \<in> set (choices field).
             trimmed_lower message = lower opt \<or> trimmed_lower message = normalized opt
             \<longrightarrow> interpret_choice field message = Inr (Some opt))
       \<and> (\<not> (isdigit (trimmed_lower message) \<and> 1 \<le> digits_value (trimmed_lower message)
               \<and> digits_value (trimmed_lower message) \<le> int (length (choices field)))
            \<and> (\<forall>opt \<in> set (choices field).
                  trimmed_lower message \<noteq> lower opt \<and> trimmed_lower message \<noteq> normalized opt)
          \<longrightarrow> interpret_choice field message = Inr None
              \<and> handle_field_input list_set state message field
                  = Inr (state, Some (get_field_prompt state field
                                        (Some ''Invalid choice. Please try again.''))))"
proof -
  note w = py_int_within [OF assms(3)]
  have index: "interpret_choice field message
                = Inr (Some (choices field ! nat (digits_value (trimmed_lower message) - 1)))"
    if "isdigit (trimmed_lower message) \<and> 1 \<le> digits_value (trimmed_lower message)
            \<and> digits_value (trimmed_lower message) \<le> int (length (choices field))"
    using that by (simp add: interpret_choice_match match_choice_def w)
  have name: "interpret_choice field message = Inr (Some opt)"
    if o: "opt \<in> set (choices field)"
      and "trimmed_lower message = lower opt \<or> trimmed_lower message = normalized opt"
    for opt
    using that match_choice_variant [OF assms(1) o]
    by (auto simp: interpret_choice_match)
  have other: "interpret_choice field message = Inr None
              \<and> handle_field_input list_set state message field
                  = Inr (state, Some (get_field_prompt state field
                                        (Some ''Invalid choice. Please try again.'')))"
    if n: "\<not> (isdigit (trimmed_lower message) \<and> 1 \<le> digits_value (trimmed_lower message)
               \<and> digits_value (trimmed_lower message) \<le> int (length (choices field)))
            \<and> (\<forall>opt \<in> set (choices field).
                  trimmed_lower message \<noteq> lower opt \<and> trimmed_lower message \<noteq> normalized opt)"
  proof -
    have "text_choice (choices field) (trimmed_lower message) = None"
      using n by (simp add: text_choice_def find_None_iff)
    then have none: "interpret_choice field message = Inr None"
      using n by (auto simp: interpret_choice_match match_choice_def w)
    have "handle_field_input list_set state message field
          = Inr (state, Some (get_field_prompt state field
                                (Some ''Invalid choice. Please try again.'')))"
      by (rule handle_reject_menu_eq [OF assms(1)]) (simp add: interpret_choice_strip none)
    then show ?thesis using none by simp
  qed
  show ?thesis
    using index name other by blast
qed

text \<open>
  The theorem of C3 at the status menu and the reply \<open>IN PROGRESS\<close> between spaces.
\<close>

theorem menu_choice_witness:
  "''status'' \<in> set (map fst CHOICE_MAPS) \<and> ascii_text '' IN PROGRESS ''
   \<and> length (trimmed_lower '' IN PROGRESS '') \<le> 4300
   \<and> ''In Progress'' \<in> set (choices ''status'')
   \<and> trimmed_lower '' IN PROGRESS '' = lower ''In Progress''
   \<and> interpret_choice ''status'' '' IN PROGRESS '' = Inr (Some ''In Progress'')"
proof -
  have a: "''status'' \<in> set (map fst CHOICE_MAPS)" by code_simp
  have b: "ascii_text '' IN PROGRESS ''" by code_simp
  have l: "length (trimmed_lower '' IN PROGRESS '') \<le> 4300" by code_simp
  have c: "''In Progress'' \<in> set (choices ''status'')" by code_simp
  have d: "trimmed_lower '' IN PROGRESS '' = lower ''In Progress''" by code_simp
  from menu_choice_interpretation [OF a b l] c d
  have "interpret_choice ''status'' '' IN PROGRESS '' = Inr (Some ''In Progress'')"
    by blast
  then show ?thesis
    using a b l c d by blast
qed

text \<open>
  Claim C3, as stated, fails: \<open>in-progress\<close> is the choice \<open>In Progress\<close> but for case,
  spaces and hyphens, and it is given no choice.
\<close>

theorem menu_choice_hyphen_counterexample:
  "''In Progress'' \<in> set (choices ''status'')
   \<and> insensitive_variant ''In Progress'' ''in-progress''
   \<and> interpret_choice ''status'' ''in-progress'' = Inr None"
  by code_simp

section \<open>Replies to the labels prompt\<close>

lemma next_prompt_after_labels:
  assumes "awaiting_field state = Some ''labels''"
  shows "get_next_field_prompt state
     = (state\<lparr>awaiting_field := None\<rparr>,
        \<lparr>intent = CREATE_ISSUE, confidence = 1,
         extracted_data = partial_issue_data state, missing_fields = [],
         next_question = None, ready_for_jira = True,
         response_message = ReadyMessage (issue_type (partial_issue_data state)),
         error = None\<rparr>)"
  using assms by (simp add: get_next_field_prompt_def FIELD_ORDER_def)


lemma set_listing_simps:
  "set_listing list_set \<Longrightarrow> set (list_set xs) = set xs"
  "set_listing list_set \<Longrightarrow> distinct (list_set xs)"
  by (simp_all add: set_listing_def)

lemma set_listing_remdups: "set_listing remdups"
  by (simp add: set_listing_def)

lemma set_listing_last_first: "set_listing last_first"
  by (simp add: set_listing_def last_first_def)

text \<open>
  Claim C9, as the code has it. A reply to the labels prompt that is no skip word and not
  \<open>clear\<close> leaves the draft with labels that are, as a set, the labels it had together
  with the pieces of the reply between commas that are not blank, each trimmed,
  lowercased and with hyphens for its spaces; no label stands twice. The labels are the
  last field, so the response is ready. The order of the labels is that of a hash set.
\<close>

theorem manual_labels_union:
  assumes "set_listing list_set"
    and "awaiting_field state = Some ''labels''"
    and "ascii_text message"
    and "\<not> is_skip (strip message)"
    and "lower (strip message) \<noteq> ''clear''"
  shows "\<exists>s r. process_message_try list_set llm state message = Inr (s, r)
      \<and> set (labels (partial_issue_data s))
          = set (labels (partial_issue_data state))
            \<union> set (map (\<lambda>l. replace_char CHR '' '' ''-'' (lower (strip l)))
                     (filter (\<lambda>l. strip l \<noteq> []) (split_on CHR '','' (strip message))))
      \<and> distinct (labels (partial_issue_data s))
      \<and> extracted_data r = partial_issue_data s
      \<and> ready_for_jira r \<and> awaiting_field s = None"
proof -
  let ?p = "(partial_issue_data state)\<lparr>labels :=
              list_set (labels (partial_issue_data state) @ manual_labels (strip message))\<rparr>"
  let ?st = "state\<lparr>partial_issue_data := ?p\<rparr>"
  let ?r = "\<lparr>intent = CREATE_ISSUE, confidence = 1, extracted_data = ?p, missing_fields = [],
             next_question = None, ready_for_jira = True,
             response_message = ReadyMessage (issue_type ?p), error = None\<rparr>"
  have a: "awaiting_field ?st = Some ''labels''"
    using assms(2) by simp
  have h: "handle_field_input list_set state message ''labels''
             = Inr (?st\<lparr>awaiting_field := None\<rparr>, Some ?r)"
    unfolding handle_labels using assms(4,5)
    by (simp add: next_prompt_after_labels [OF a])
  have t: "process_message_try list_set llm state message
             = Inr (say (Agent (response_message ?r))
                      (say (User message) (?st\<lparr>awaiting_field := None\<rparr>)), ?r)"
    by (rule process_try_guided [OF assms(2) _ h]) simp
  show ?thesis
    apply (rule exI [of _ "say (Agent (response_message ?r))
                      (say (User message) (?st\<lparr>awaiting_field := None\<rparr>))"])
    apply (rule exI [of _ ?r])
    using t
    by (simp add: say_simps set_listing_simps [OF assms(1)] manual_labels_def)
qed

text \<open>The theorem of C9 at the labels \<open>api\<close>, \<open>login\<close> and the reply \<open>Foo Bar, api\<close>.\<close>

theorem manual_labels_witness:
  "set_listing remdups \<and> awaiting_field labels_state = Some ''labels''
   \<and> ascii_text ''Foo Bar, api'' \<and> \<not> is_skip (strip ''Foo Bar, api'')
   \<and> lower (strip ''Foo Bar, api'') \<noteq> ''clear''
   \<and> set (labels (partial_issue_data
        (state_after (process_message_try remdups (InvokeRaises []) labels_state ''Foo Bar, api''))))
      = {''api'', ''login'', ''foo-bar''}"
proof -
  have b: "awaiting_field labels_state = Some ''labels''" by code_simp
  have c: "ascii_text ''Foo Bar, api''" by code_simp
  have d: "\<not> is_skip (strip ''Foo Bar, api'')" by code_simp
  have e: "lower (strip ''Foo Bar, api'') \<noteq> ''clear''" by code_simp
  have m: "map (\<lambda>l. replace_char CHR '' '' ''-'' (lower (strip l)))
             (filter (\<lambda>l. strip l \<noteq> []) (split_on CHR '','' (strip ''Foo Bar, api'')))
           = [''foo-bar'', ''api'']" by code_simp
  have l: "labels (partial_issue_data labels_state) = [''api'', ''login'']" by code_simp
  from manual_labels_union [OF set_listing_remdups b c d e, of "InvokeRaises []"]
  obtain s r where
    "process_message_try remdups (InvokeRaises []) labels_state ''Foo Bar, api'' = Inr (s, r)"
    "set (labels (partial_issue_data s))
       = set (labels (partial_issue_data labels_state))
         \<union> set (map (\<lambda>l. replace_char CHR '' '' ''-'' (lower (strip l)))
                  (filter (\<lambda>l. strip l \<noteq> []) (split_on CHR '','' (strip ''Foo Bar, api''))))"
    by blast
  then have "set (labels (partial_issue_data
        (state_after (process_message_try remdups (InvokeRaises []) labels_state ''Foo Bar, api''))))
      = {''api'', ''login'', ''foo-bar''}"
    unfolding m l by (auto simp: state_after_def)
  then show ?thesis
    using set_listing_remdups b c d e by blast
qed

text \<open>
  Claim C9, as stated, fails in its last part. With a set that iterates its elements
  last first, the reply \<open>x\<close> leaves the collected labels \<open>api\<close>, \<open>login\<close> in the other
  order.
\<close>

theorem manual_labels_order_counterexample:
  "set_listing last_first
   \<and> labels (partial_issue_data
        (state_after (process_message_try last_first (InvokeRaises []) labels_state ''x'')))
      = [''x'', ''login'', ''api'']
   \<and> \<not> order_kept (labels (partial_issue_data labels_state))
          (labels (partial_issue_data
            (state_after (process_message_try last_first (InvokeRaises []) labels_state ''x''))))"
proof -
  have "labels (partial_issue_data
        (state_after (process_message_try last_first (InvokeRaises []) labels_state ''x'')))
      = [''x'', ''login'', ''api'']
   \<and> \<not> order_kept (labels (partial_issue_data labels_state))
          (labels (partial_issue_data
            (state_after (process_message_try last_first (InvokeRaises []) labels_state ''x''))))"
    by code_simp
  then show ?thesis
    using set_listing_last_first by blast
qed

section \<open>Replies to the description prompt, and merged labels\<close>





section \<open>The turn: extraction, exceptions, readiness\<close>

lemma store_not_raise:
  "(case get_next_field_prompt st of (s, r) \<Rightarrow> Inr (s, Some r)) \<noteq> (Inl e :: exn + (ConversationState \<times> AgentResponse option))"
  by (simp split: prod.split)

lemma if_not_raise:
  "(c \<Longrightarrow> a \<noteq> Inl e) \<Longrightarrow> (\<not> c \<Longrightarrow> b \<noteq> Inl e) \<Longrightarrow> (if c then a else b) \<noteq> Inl e"
  by simp

lemma menu_branch_not_raise:
  assumes "field \<in> set (map fst CHOICE_MAPS)" and "interpret_choice field u = Inr choice"
  shows "(if truthy choice then
            (case set_menu_field field (the choice) partial of
               Inl x \<Rightarrow> Inl x
             | Inr p \<Rightarrow> (case get_next_field_prompt (state\<lparr>partial_issue_data := p\<rparr>) of
                           (s, r) \<Rightarrow> Inr (s, Some r)))
          else Inr (state, Some (get_field_prompt state field (Some m))))
         \<noteq> (Inl e :: exn + (ConversationState \<times> AgentResponse option))"
proof (cases "truthy choice")
  case False
  then show ?thesis by simp
next
  case True
  then obtain c where c: "choice = Some c"
    by (auto simp: truthy_def split: option.splits)
  then have "c \<in> set (choices field)"
    using assms(2) by (simp add: interpret_choice_match match_choice_mem)
  then obtain p where "set_menu_field field c partial = Inr p"
    using set_menu_field_ok [OF assms(1)] by blast
  then show ?thesis
    using True c by (simp add: store_not_raise)
qed

lemma handle_other_not_raise:
  assumes "field \<notin> set (map fst CHOICE_MAPS)"
  shows "handle_field_input list_set state message field \<noteq> Inl e"
  unfolding handle_field_input_def Let_def
  apply (simp only: assms if_False)
  apply (intro if_not_raise store_not_raise)
  apply simp_all
  done

text \<open>
  The one exception that leaves \<open>_handle_field_input\<close>: the conversion of a menu reply
  of more than 4300 digits.
\<close>

lemma handle_raise_only_conversion:
  assumes "handle_field_input list_set state message field = Inl x"
  shows "field \<in> set (map fst CHOICE_MAPS) \<and> isdigit (trimmed_lower message)
       \<and> length (trimmed_lower message) > 4300
       \<and> x = conversion_limit_error (length (trimmed_lower message))"
proof (cases "field \<in> set (map fst CHOICE_MAPS)")
  case False
  then show ?thesis using handle_other_not_raise assms by blast
next
  case True
  show ?thesis
  proof (cases "interpret_choice field (strip message)")
    case (Inl e)
    then have "handle_field_input list_set state message field = Inl e"
      by (rule handle_raise_menu [OF True])
    then have "e = x" using assms by simp
    then have "match_choice field (trimmed_lower message) = Inl x"
      using Inl by (simp add: interpret_choice_match strip_idem)
    then show ?thesis
      using match_choice_raise True by blast
  next
    case (Inr choice)
    have "handle_field_input list_set state message field \<noteq> Inl x"
      using True menu_branch_not_raise [OF True Inr]
      by (simp add: handle_field_input_def Let_def Inr)
    then show ?thesis using assms by simp
  qed
qed


lemma process_try_cases:
  obtains (returns) s r where "process_message_try list_set llm state message = Inr (s, r)"
    | (raises) x where "process_message_try list_set llm state message = Inl x"
proof (cases "process_message_try list_set llm state message")
  case (Inl x)
  then show ?thesis by (rule raises)
next
  case (Inr p)
  then show ?thesis by (cases p) (simp add: returns)
qed

lemma process_try_extract:
  assumes "consults_extractor state"
  shows "process_message_try list_set llm state message
           = Inr (extraction_turn list_set llm state message)"
proof (cases "awaiting_field state")
  case None
  then show ?thesis by (simp add: process_message_try_def truthy_def)
next
  case (Some field)
  then have "field = [] \<or> field \<notin> set FIELD_ORDER"
    using assms by (simp add: consults_extractor_def)
  then show ?thesis
  proof
    assume "field = []"
    then show ?thesis using Some by (simp add: process_message_try_def truthy_def)
  next
    assume "field \<notin> set FIELD_ORDER"
    then show ?thesis
      using Some handle_unknown_field [of field list_set state message]
      by (simp add: process_message_try_def)
  qed
qed

lemma process_message_eq:
  assumes "get_conversation_state agent phone = (agent1, state)"
    and "process_message_try list_set llm state message = Inr (s, r)"
  shows "process_message list_set llm agent phone message
           = (agent1\<lparr>conversation_states := (conversation_states agent1)(phone \<mapsto> s)\<rparr>, r)"
  using assms by (simp add: process_message_def process_message_except_def)

lemma merge_with_state_simps:
  "intent (merge_with_state list_set state a) = intent a"
  "ready_for_jira (merge_with_state list_set state a) = ready_for_jira a"
  "missing_fields (merge_with_state list_set state a) = missing_fields a"
  "response_message (merge_with_state list_set state a) = response_message a"
  "error (merge_with_state list_set state a) = error a"
  by (simp_all add: merge_with_state_def)

lemma error_responses_simps:
  "intent (llm_error_response e) = UNKNOWN" "\<not> ready_for_jira (llm_error_response e)"
  "missing_fields (llm_error_response e) = []"
  "error (llm_error_response e) = Some (''LLM error: '' @ e)"
  "intent (json_error_response e) = UNKNOWN" "\<not> ready_for_jira (json_error_response e)"
  "missing_fields (json_error_response e) = []"
  "error (json_error_response e) = Some (''JSON parsing error: '' @ e)"
  "intent (error_response x) = UNKNOWN" "\<not> ready_for_jira (error_response x)"
  "error (error_response x) = Some (str_exn x)"
  by (simp_all add: llm_error_response_def json_error_response_def error_response_def)


lemma extract_not_ready:
  assumes "\<forall>a. llm = Reply a \<longrightarrow> \<not> ready_for_jira a"
  shows "\<not> ready_for_jira (extract_intent_and_data list_set llm state)"
  using assms
  by (cases llm)
     (simp_all add: extract_intent_and_data_def merge_with_state_simps error_responses_simps)

lemma start_collection_simps:
  "start_interactive_collection state
     = (state\<lparr>awaiting_field := Some ''issue_type''\<rparr>,
        get_field_prompt (state\<lparr>awaiting_field := Some ''issue_type''\<rparr>) ''issue_type'' None)"
  by (simp add: start_interactive_collection_def FIELD_ORDER_def Let_def)

lemma extraction_turn_not_ready:
  assumes "\<forall>a. llm = Reply a \<longrightarrow> \<not> ready_for_jira a"
  shows "\<not> ready_for_jira (snd (extraction_turn list_set llm state message))"
  using extract_not_ready [OF assms, of list_set "say (User message) state"]
  by (simp add: extraction_turn_def Let_def start_collection_simps get_field_prompt_simps)


lemma extraction_turn_create:
  assumes "intent a = CREATE_ISSUE" and "\<not> ready_for_jira a"
  shows "extraction_turn list_set (Reply a) state message
     = (say (Agent (FieldPrompt ''issue_type'' None []))
          ((say (User message) state)\<lparr>awaiting_field := Some ''issue_type'',
             current_intent := Some CREATE_ISSUE\<rparr>),
        get_field_prompt state ''issue_type'' None)"
  using assms
  by (simp add: extraction_turn_def Let_def extract_intent_and_data_def merge_with_state_simps
        start_collection_simps update_conversation_state_def get_field_prompt_def say_def
        truthy_def)





lemma str_nat_4301: "str_nat 4301 = ''4301''"
  by code_simp



lemma direct_ready_iff:
  "ready_for_jira (direct_issue_creation k d) \<longleftrightarrow> direct_missing_fields d = []"
  by (simp add: direct_issue_creation_def Let_def)

lemma direct_missing_iff: "direct_missing_fields d = [] \<longleftrightarrow> required_set d"
  by (simp add: direct_missing_fields_def required_set_def)

lemma direct_ready_response:
  assumes "required_set d"
  shows "missing_fields (direct_issue_creation k d) = []
       \<and> next_question (direct_issue_creation k d) = None
       \<and> required_set (extracted_data (direct_issue_creation k d))"
  using assms direct_missing_iff [of d]
  by (simp add: direct_issue_creation_def Let_def) (simp add: required_set_def)

text \<open>
  Claim C1, as the code has it. A response of \<open>process_message\<close> that is ready, in a turn
  in which no reply of the extractor is itself flagged ready (so the ready response comes
  from guided collection), has no missing field and no next question. A response of the
  direct path that is ready has no missing field, no next question, and a draft with
  the issue type, the priority, the summary and the description set.
\<close>

theorem readiness_of_guided_and_direct:
  assumes "ascii_text message"
  shows "(process_message list_set llm agent phone message = (agent', r)
            \<and> ready_for_jira r \<and> (\<forall>a. llm = Reply a \<longrightarrow> \<not> ready_for_jira a)
          \<longrightarrow> missing_fields r = [] \<and> next_question r = None)
       \<and> (ready_for_jira (process_direct_issue_creation d)
          \<longrightarrow> missing_fields (process_direct_issue_creation d) = []
              \<and> next_question (process_direct_issue_creation d) = None
              \<and> required_set (extracted_data (process_direct_issue_creation d)))"
proof -
  have guided: "missing_fields r = [] \<and> next_question r = None"
    if a: "process_message list_set llm agent phone message = (agent', r)
            \<and> ready_for_jira r \<and> (\<forall>a. llm = Reply a \<longrightarrow> \<not> ready_for_jira a)"
  proof -
    obtain agent1 state where g: "get_conversation_state agent phone = (agent1, state)"
      by (cases "get_conversation_state agent phone") blast
    show ?thesis
    proof (cases rule: process_try_cases [of list_set llm state message])
      case (raises x)
      then have "r = error_response x"
        using a process_message_raise [OF g] by simp
      then show ?thesis
        using a by (simp add: error_responses_simps)
    next
      case (returns s r0)
      note t = returns
      have r: "r0 = r"
        using a process_message_eq [OF g t] by simp
      have x: "\<not> ready_for_jira (snd (extraction_turn list_set llm state message))"
        using a by (simp add: extraction_turn_not_ready)
      let ?f = "the (awaiting_field state)"
      let ?h = "handle_field_input list_set state message ?f"
      have e: "process_message_try list_set llm state message
                 \<noteq> Inr (extraction_turn list_set llm state message)"
      proof
        assume "process_message_try list_set llm state message
                  = Inr (extraction_turn list_set llm state message)"
        then have "extraction_turn list_set llm state message = (s, r0)"
          using t by simp
        then have "snd (extraction_turn list_set llm state message) = r"
          using r by simp
        then show False
          using x a by simp
      qed
      have tr: "truthy (awaiting_field state)"
      proof (rule ccontr)
        assume "\<not> truthy (awaiting_field state)"
        then have "process_message_try list_set llm state message
                     = Inr (extraction_turn list_set llm state message)"
          by (simp add: process_message_try_def)
        then show False using e by simp
      qed
      have o: "guided_outcome state ?f ?h"
        by (rule handle_field_input_outcome)
      then consider (raise) e where "?h = Inl e"
        | (none) "?h = Inr (state, None)"
        | (reject) m where "?h = Inr (state, Some (get_field_prompt state ?f (Some m)))"
        | (store) p where "?h = (case get_next_field_prompt (state\<lparr>partial_issue_data := p\<rparr>) of
                                  (s, r) \<Rightarrow> Inr (s, Some r))"
        unfolding guided_outcome_def by blast
      then show ?thesis
      proof cases
        case raise
        then show ?thesis using t tr by (simp add: process_message_try_def)
      next
        case none
        then show ?thesis using e tr by (simp add: process_message_try_def)
      next
        case reject
        then have "r0 = get_field_prompt state ?f (Some m)"
          using t tr by (simp add: process_message_try_def)
        then show ?thesis using a r by (simp add: get_field_prompt_simps)
      next
        case store
        obtain s' r' where n: "get_next_field_prompt (state\<lparr>partial_issue_data := p\<rparr>) = (s', r')"
          by (cases "get_next_field_prompt (state\<lparr>partial_issue_data := p\<rparr>)") blast
        then have "r0 = r'"
          using store t tr by (simp add: process_message_try_def)
        then show ?thesis
          using next_field_prompt_ready [OF n] a r by simp
      qed
    qed
  qed
  have direct: "missing_fields (process_direct_issue_creation d) = []
              \<and> next_question (process_direct_issue_creation d) = None
              \<and> required_set (extracted_data (process_direct_issue_creation d))"
    if "ready_for_jira (process_direct_issue_creation d)"
  proof -
    from that have "required_set d"
      by (simp add: process_direct_is_240 process_direct_issue_creation_240_def
            direct_ready_iff direct_missing_iff)
    then show ?thesis
      unfolding process_direct_is_240 process_direct_issue_creation_240_def
      by (rule direct_ready_response)
  qed
  show ?thesis
    using guided direct by blast
qed


text \<open>
  The theorem of C1 at the reply \<open>skip\<close> to the labels prompt, and at the sample draft on
  the direct path.
\<close>

theorem readiness_witness:
  "ascii_text ''skip''
   \<and> ready_for_jira (snd (process_message remdups (InvokeRaises [])
        \<lparr>conversation_states = [''u'' \<mapsto> labels_state]\<rparr> ''u'' ''skip''))
   \<and> missing_fields (snd (process_message remdups (InvokeRaises [])
        \<lparr>conversation_states = [''u'' \<mapsto> labels_state]\<rparr> ''u'' ''skip'')) = []
   \<and> next_question (snd (process_message remdups (InvokeRaises [])
        \<lparr>conversation_states = [''u'' \<mapsto> labels_state]\<rparr> ''u'' ''skip'')) = None
   \<and> ready_for_jira (process_direct_issue_creation sample_draft)
   \<and> required_set (extracted_data (process_direct_issue_creation sample_draft))"
proof -
  let ?p = "process_message remdups (InvokeRaises [])
        \<lparr>conversation_states = [''u'' \<mapsto> labels_state]\<rparr> ''u'' ''skip''"
  have a: "ascii_text ''skip''" by code_simp
  have b: "ready_for_jira (snd ?p)" by code_simp
  have c: "?p = (fst ?p, snd ?p)" by simp
  have n: "\<forall>a. InvokeRaises [] = Reply a \<longrightarrow> \<not> ready_for_jira a" by simp
  have d: "ready_for_jira (process_direct_issue_creation sample_draft)" by code_simp
  note t = readiness_of_guided_and_direct [OF a, of remdups "InvokeRaises []"
      "\<lparr>conversation_states = [''u'' \<mapsto> labels_state]\<rparr>" "''u''" "fst ?p" "snd ?p" sample_draft]
  from t c b n have "missing_fields (snd ?p) = [] \<and> next_question (snd ?p) = None"
    by blast
  moreover from t d have "required_set (extracted_data (process_direct_issue_creation sample_draft))"
    by blast
  ultimately show ?thesis
    using a b d by blast
qed

text \<open>
  Claim C1, as stated, fails. A new user who skips the description is told at the end
  that the issue is ready, and the description of the draft is unset; and a reply of the
  extractor that is flagged ready is returned as it is, with its missing field and its
  question.
\<close>

theorem readiness_counterexample:
  "ready_for_jira (last (snd (converse remdups new_agent ''u'' skipped_description_turns)))
   \<and> description (extracted_data
        (last (snd (converse remdups new_agent ''u'' skipped_description_turns)))) = None
   \<and> ready_for_jira (snd (process_message remdups (Reply ready_query_reply) new_agent ''u''
        ''status of TJ-1''))
   \<and> missing_fields (snd (process_message remdups (Reply ready_query_reply) new_agent ''u''
        ''status of TJ-1'')) = [''issue_key'']
   \<and> next_question (snd (process_message remdups (Reply ready_query_reply) new_agent ''u''
        ''status of TJ-1'')) = Some (Text ''Which issue?'')"
  by code_simp

section \<open>The turn: start of guided collection, and failures\<close>

text \<open>
  Claim C2, as the code has it. When the extractor is consulted and its reply has the
  intent \<open>create\<close> and is not ready, the turn starts guided collection at the first field
  of the registry, \<open>issue_type\<close>, whatever the draft holds: the response is the prompt
  for the issue type, the issue type is awaited, the intent is stored, and the stored
  draft is the one from before the turn (what the reply extracted is not kept).
\<close>

theorem guided_collection_starts_at_issue_type:
  assumes "get_conversation_state agent phone = (agent1, state)"
    and "consults_extractor state"
    and "ascii_text message"
    and "intent a = CREATE_ISSUE"
    and "\<not> ready_for_jira a"
  shows "\<exists>agent' r. process_message list_set (Reply a) agent phone message = (agent', r)
      \<and> awaiting_field (state_of agent' phone) = Some ''issue_type''
      \<and> FIELD_ORDER ! 0 = ''issue_type''
      \<and> r = get_field_prompt state ''issue_type'' None
      \<and> missing_fields r = [''issue_type''] \<and> \<not> ready_for_jira r
      \<and> extracted_data r = partial_issue_data state
      \<and> partial_issue_data (state_of agent' phone) = partial_issue_data state
      \<and> current_intent (state_of agent' phone) = Some CREATE_ISSUE"
proof -
  let ?s = "say (Agent (FieldPrompt ''issue_type'' None []))
          ((say (User message) state)\<lparr>awaiting_field := Some ''issue_type'',
             current_intent := Some CREATE_ISSUE\<rparr>)"
  let ?r = "get_field_prompt state ''issue_type'' None"
  have t: "process_message_try list_set (Reply a) state message = Inr (?s, ?r)"
    unfolding process_try_extract [OF assms(2)] extraction_turn_create [OF assms(4,5)] ..
  have p: "process_message list_set (Reply a) agent phone message
             = (agent1\<lparr>conversation_states := (conversation_states agent1)(phone \<mapsto> ?s)\<rparr>, ?r)"
    by (rule process_message_eq [OF assms(1) t])
  show ?thesis
    apply (rule exI [of _ "agent1\<lparr>conversation_states := (conversation_states agent1)(phone \<mapsto> ?s)\<rparr>"])
    apply (rule exI [of _ ?r])
    using p
    by (simp add: state_of_stored say_simps get_field_prompt_simps FIELD_ORDER_def)
qed

text \<open>
  The theorem of C2 at a new user whose request is understood as a \<open>create\<close> intent with
  the issue type \<open>Task\<close>: the issue type is asked for, and the stored draft has none.
\<close>

theorem guided_collection_start_witness:
  "get_conversation_state new_agent ''u''
     = (\<lparr>conversation_states = [''u'' \<mapsto> new_conversation_state ''u'']\<rparr>,
        new_conversation_state ''u'')
   \<and> consults_extractor (new_conversation_state ''u'')
   \<and> ascii_text ''create a task''
   \<and> intent typed_create_reply = CREATE_ISSUE \<and> \<not> ready_for_jira typed_create_reply
   \<and> awaiting_field (state_of (fst (process_message remdups (Reply typed_create_reply)
        new_agent ''u'' ''create a task'')) ''u'') = Some ''issue_type''
   \<and> issue_type (partial_issue_data (state_of (fst (process_message remdups
        (Reply typed_create_reply) new_agent ''u'' ''create a task'')) ''u'')) = None"
proof -
  have a: "get_conversation_state new_agent ''u''
     = (\<lparr>conversation_states = [''u'' \<mapsto> new_conversation_state ''u'']\<rparr>,
        new_conversation_state ''u'')"
    by (simp add: get_conversation_state_def new_agent_def)
  have b: "consults_extractor (new_conversation_state ''u'')"
    by (simp add: consults_extractor_def new_conversation_state_def)
  have c: "ascii_text ''create a task''" by code_simp
  have d: "intent typed_create_reply = CREATE_ISSUE"
    by (simp add: typed_create_reply_def create_reply_def)
  have e: "\<not> ready_for_jira typed_create_reply"
    by (simp add: typed_create_reply_def create_reply_def)
  have n: "issue_type (partial_issue_data (new_conversation_state ''u'')) = None"
    by (simp add: new_conversation_state_def empty_issue_data_def)
  from guided_collection_starts_at_issue_type [OF a b c d e, of remdups]
  obtain agent' r where
    "process_message remdups (Reply typed_create_reply) new_agent ''u'' ''create a task''
       = (agent', r)"
    "awaiting_field (state_of agent' ''u'') = Some ''issue_type''"
    "partial_issue_data (state_of agent' ''u'') = partial_issue_data (new_conversation_state ''u'')"
    by blast
  then have "awaiting_field (state_of (fst (process_message remdups (Reply typed_create_reply)
        new_agent ''u'' ''create a task'')) ''u'') = Some ''issue_type''
   \<and> issue_type (partial_issue_data (state_of (fst (process_message remdups
        (Reply typed_create_reply) new_agent ''u'' ''create a task'')) ''u'')) = None"
    using n by simp
  then show ?thesis
    using a b c d e by blast
qed

text \<open>
  Claim C2, as stated, fails. After an update that set the issue type, a request to
  create an issue starts guided collection: the issue type is awaited although the draft
  has one, and the first gap of the draft is the priority.
\<close>

theorem guided_collection_start_counterexample:
  "issue_type (partial_issue_data
      (state_of (fst (converse remdups new_agent ''u'' type_then_create_turns)) ''u''))
     = Some TASK
   \<and> first_gap (partial_issue_data
      (state_of (fst (converse remdups new_agent ''u'' type_then_create_turns)) ''u''))
     = Some ''priority''
   \<and> awaiting_field
      (state_of (fst (converse remdups new_agent ''u'' type_then_create_turns)) ''u'')
     = Some ''issue_type''"
  by code_simp



end
